theory Spec2Isabelle
  imports Main "HOL-Library.Word"
begin

section \<open>State machine framework: data model\<close>

text \<open>
  The embedding follows \<^verbatim>\<open>sm_types.h\<close>, \<^verbatim>\<open>sm_config.h\<close>,
  \<^verbatim>\<open>sm_state_machine.c\<close>, \<^verbatim>\<open>sm_error_handler.c\<close> and the timing part of
  \<^verbatim>\<open>sm_platform_weak.c\<close>. The C globals become the fields of one record
  \<open>world\<close>; every C function becomes a function on worlds that returns its C result
  together with the new world.

  Enumerations are datatypes of their named enumerators. The closing enumerator of each
  (\<^verbatim>\<open>STATE_MAX\<close>, \<^verbatim>\<open>EVENT_MAX\<close>, \<^verbatim>\<open>ERROR_CODE_MAX\<close>) is the number of
  enumerators and is kept as a number; the range checks of the C code compare the
  enumerator's number with it, as the C code does.
\<close>

type_synonym u8 = "8 word"
type_synonym u32 = "32 word"

datatype StateMachineState_t =
    STATE_INIT | STATE_IDLE | STATE_ACTIVE | STATE_PROCESSING | STATE_COMMUNICATING
  | STATE_MONITORING | STATE_CALIBRATING | STATE_DIAGNOSTICS | STATE_RECOVERY
  | STATE_CRITICAL_ERROR

fun state_num :: "StateMachineState_t \<Rightarrow> nat" where
  "state_num STATE_INIT = 0"
| "state_num STATE_IDLE = 1"
| "state_num STATE_ACTIVE = 2"
| "state_num STATE_PROCESSING = 3"
| "state_num STATE_COMMUNICATING = 4"
| "state_num STATE_MONITORING = 5"
| "state_num STATE_CALIBRATING = 6"
| "state_num STATE_DIAGNOSTICS = 7"
| "state_num STATE_RECOVERY = 8"
| "state_num STATE_CRITICAL_ERROR = 9"

abbreviation STATE_MAX :: nat where "STATE_MAX \<equiv> 10"

datatype StateMachineEvent_t =
    EVENT_NONE | EVENT_INIT_COMPLETE | EVENT_START | EVENT_STOP | EVENT_DATA_READY
  | EVENT_PROCESSING_DONE | EVENT_COMM_REQUEST | EVENT_COMM_COMPLETE | EVENT_TIMEOUT
  | EVENT_ERROR_MINOR | EVENT_ERROR_NORMAL | EVENT_ERROR_CRITICAL
  | EVENT_RECOVERY_SUCCESS | EVENT_RECOVERY_FAILED

fun event_num :: "StateMachineEvent_t \<Rightarrow> nat" where
  "event_num EVENT_NONE = 0"
| "event_num EVENT_INIT_COMPLETE = 1"
| "event_num EVENT_START = 2"
| "event_num EVENT_STOP = 3"
| "event_num EVENT_DATA_READY = 4"
| "event_num EVENT_PROCESSING_DONE = 5"
| "event_num EVENT_COMM_REQUEST = 6"
| "event_num EVENT_COMM_COMPLETE = 7"
| "event_num EVENT_TIMEOUT = 8"
| "event_num EVENT_ERROR_MINOR = 9"
| "event_num EVENT_ERROR_NORMAL = 10"
| "event_num EVENT_ERROR_CRITICAL = 11"
| "event_num EVENT_RECOVERY_SUCCESS = 12"
| "event_num EVENT_RECOVERY_FAILED = 13"

abbreviation EVENT_MAX :: nat where "EVENT_MAX \<equiv> 14"

datatype ErrorLevel_t =
  ERROR_LEVEL_NONE | ERROR_LEVEL_MINOR | ERROR_LEVEL_NORMAL | ERROR_LEVEL_CRITICAL

datatype ErrorCode_t =
    ERROR_CODE_NONE | ERROR_CODE_TIMEOUT | ERROR_CODE_COMM_LOST | ERROR_CODE_COMM_CORRUPT
  | ERROR_CODE_INVALID_DATA | ERROR_CODE_BUFFER_OVERFLOW | ERROR_CODE_RESOURCE_UNAVAILABLE
  | ERROR_CODE_CALIBRATION_FAILED | ERROR_CODE_HARDWARE_FAULT | ERROR_CODE_WATCHDOG_RESET
  | ERROR_CODE_MEMORY_CORRUPTION

fun code_num :: "ErrorCode_t \<Rightarrow> nat" where
  "code_num ERROR_CODE_NONE = 0"
| "code_num ERROR_CODE_TIMEOUT = 1"
| "code_num ERROR_CODE_COMM_LOST = 2"
| "code_num ERROR_CODE_COMM_CORRUPT = 3"
| "code_num ERROR_CODE_INVALID_DATA = 4"
| "code_num ERROR_CODE_BUFFER_OVERFLOW = 5"
| "code_num ERROR_CODE_RESOURCE_UNAVAILABLE = 6"
| "code_num ERROR_CODE_CALIBRATION_FAILED = 7"
| "code_num ERROR_CODE_HARDWARE_FAULT = 8"
| "code_num ERROR_CODE_WATCHDOG_RESET = 9"
| "code_num ERROR_CODE_MEMORY_CORRUPTION = 10"

abbreviation ERROR_CODE_MAX :: nat where "ERROR_CODE_MAX \<equiv> 11"

subsection \<open>Configuration constants (\<^verbatim>\<open>sm_config.h\<close>)\<close>

abbreviation SM_MAX_TRANSITIONS_PER_STATE :: nat where "SM_MAX_TRANSITIONS_PER_STATE \<equiv> 5"
abbreviation SM_STATE_TIMEOUT_MS :: u32 where "SM_STATE_TIMEOUT_MS \<equiv> 5000"
abbreviation ERROR_MAX_RECOVERY_ATTEMPTS :: u8 where "ERROR_MAX_RECOVERY_ATTEMPTS \<equiv> 3"
abbreviation ERROR_MINOR_TIMEOUT_MS :: u32 where "ERROR_MINOR_TIMEOUT_MS \<equiv> 50"
abbreviation ERROR_HISTORY_SIZE :: nat where "ERROR_HISTORY_SIZE \<equiv> 16"
abbreviation COMM_TIMEOUT_MS :: u32 where "COMM_TIMEOUT_MS \<equiv> 100"
abbreviation COMM_VERIFICATION_COUNT :: u8 where "COMM_VERIFICATION_COUNT \<equiv> 3"
abbreviation COMM_VERIFICATION_WINDOW_MS :: u32 where "COMM_VERIFICATION_WINDOW_MS \<equiv> 50"

subsection \<open>Structures (\<^verbatim>\<open>sm_types.h\<close>)\<close>

record ErrorInfo_t =
  level :: ErrorLevel_t
  code :: ErrorCode_t
  timestamp :: u32
  state :: StateMachineState_t
  retry_count :: u8
  is_recovered :: bool

record StateTransition_t =
  event :: StateMachineEvent_t
  next_state :: StateMachineState_t

text \<open>
  The callbacks a table entry can point to are the thirty state callbacks of
  \<^verbatim>\<open>sm_state_machine.c\<close>; a null pointer is \<open>None\<close>.
\<close>

datatype callback =
    State_Init_OnEntry | State_Init_OnState | State_Init_OnExit
  | State_Idle_OnEntry | State_Idle_OnState | State_Idle_OnExit
  | State_Active_OnEntry | State_Active_OnState | State_Active_OnExit
  | State_Processing_OnEntry | State_Processing_OnState | State_Processing_OnExit
  | State_Communicating_OnEntry | State_Communicating_OnState | State_Communicating_OnExit
  | State_Monitoring_OnEntry | State_Monitoring_OnState | State_Monitoring_OnExit
  | State_Calibrating_OnEntry | State_Calibrating_OnState | State_Calibrating_OnExit
  | State_Diagnostics_OnEntry | State_Diagnostics_OnState | State_Diagnostics_OnExit
  | State_Recovery_OnEntry | State_Recovery_OnState | State_Recovery_OnExit
  | State_CriticalError_OnEntry | State_CriticalError_OnState | State_CriticalError_OnExit

record StateConfig_t =
  state_id :: StateMachineState_t
  on_entry :: "callback option"
  on_state :: "callback option"
  on_exit :: "callback option"
  transitions :: "StateTransition_t list"
  transition_count :: u8
  timeout_ms :: u32

record ErrorHandler_t =
  current_error :: ErrorInfo_t
  error_history :: "ErrorInfo_t list"
  history_index :: u8
  minor_error_timestamp :: u32
  minor_good_message_count :: u8
  critical_lock_active :: bool

record StateMachineContext_t =
  current_state :: StateMachineState_t
  previous_state :: StateMachineState_t
  pending_event :: StateMachineEvent_t
  state_entry_time :: u32
  state_execution_count :: u32
  state_changed :: bool
  error_handler :: ErrorHandler_t

text \<open>The file-static structures \<^verbatim>\<open>g_state_data\<close> and \<^verbatim>\<open>g_comm_verification\<close>.\<close>

record state_data_t =
  init_step_count :: u32
  comm_started :: bool

record comm_verification_t =
  window_start_time :: u32
  good_message_count :: u8
  is_verified :: bool

text \<open>
  A registered recovery handler is a C function \<^verbatim>\<open>bool (*)(ErrorCode_t)\<close>. None is defined
  in the repository; the model takes a handler to be a function of the error code that
  leaves the framework's globals alone.
\<close>

type_synonym ErrorRecoveryHandler_t = "ErrorCode_t \<Rightarrow> bool"

text \<open>
  The world: the globals of the two core files, the platform clock, and one ghost field.
  \<^item> \<open>clock\<close> and \<open>clock_reads\<close>: \<^verbatim>\<open>Platform_GetTimeMs\<close> is a weak symbol, so any
    implementation can stand behind it. The model fixes the sequence of readings the
    framework obtains: the \<open>k\<close>-th read returns \<open>clock k\<close>. The default implementation
    (a counter incremented on every call) is \<open>\<lambda>k. of_nat k\<close>.
  \<^item> \<open>hook_calls\<close> (ghost): the callbacks invoked so far, oldest first.
  The \<^verbatim>\<open>DEBUG_*\<close> macros write to the debug sink only (they expand to \<^verbatim>\<open>((void)0)\<close>
  with \<^verbatim>\<open>DEBUG_LEVEL 0\<close>) and are left out. The statistics counters are compiled out
  (\<^verbatim>\<open>FEATURE_STATISTICS_ENABLED\<close> is 0). Calls do not interleave: the critical section of
  \<^verbatim>\<open>StateMachine_PostEvent\<close> (\<^verbatim>\<open>Platform_EnterCritical\<close>, \<^verbatim>\<open>Platform_ExitCritical\<close>)
  has no effect of its own in this sequential model.
\<close>

record world =
  g_sm_context :: StateMachineContext_t
  g_state_table :: "StateMachineState_t \<Rightarrow> StateConfig_t"
  g_state_data :: state_data_t
  g_comm_verification :: comm_verification_t
  g_recovery_handlers :: "ErrorCode_t \<Rightarrow> ErrorRecoveryHandler_t option"
  clock :: "nat \<Rightarrow> u32"
  clock_reads :: nat
  hook_calls :: "callback list"

abbreviation upd_ctx :: "(StateMachineContext_t \<Rightarrow> StateMachineContext_t) \<Rightarrow> world \<Rightarrow> world" where
  "upd_ctx f w \<equiv> w\<lparr>g_sm_context := f (g_sm_context w)\<rparr>"

abbreviation upd_handler :: "(ErrorHandler_t \<Rightarrow> ErrorHandler_t) \<Rightarrow> world \<Rightarrow> world" where
  "upd_handler f w \<equiv> upd_ctx (\<lambda>c. c\<lparr>error_handler := f (error_handler c)\<rparr>) w"

abbreviation upd_current_error :: "(ErrorInfo_t \<Rightarrow> ErrorInfo_t) \<Rightarrow> world \<Rightarrow> world" where
  "upd_current_error f w \<equiv> upd_handler (\<lambda>h. h\<lparr>current_error := f (current_error h)\<rparr>) w"

abbreviation handler_of :: "world \<Rightarrow> ErrorHandler_t" where
  "handler_of w \<equiv> error_handler (g_sm_context w)"

abbreviation lockout :: "world \<Rightarrow> bool" where
  "lockout w \<equiv> critical_lock_active (error_handler (g_sm_context w))"

text \<open>The all-zero values \<^verbatim>\<open>memset\<close> leaves behind.\<close>

definition zero_ErrorInfo :: ErrorInfo_t where
  "zero_ErrorInfo = \<lparr>level = ERROR_LEVEL_NONE, code = ERROR_CODE_NONE, timestamp = 0,
     state = STATE_INIT, retry_count = 0, is_recovered = False\<rparr>"

definition zero_StateTransition :: StateTransition_t where
  "zero_StateTransition = \<lparr>event = EVENT_NONE, next_state = STATE_INIT\<rparr>"

definition zero_StateConfig :: StateConfig_t where
  "zero_StateConfig = \<lparr>state_id = STATE_INIT, on_entry = None, on_state = None, on_exit = None,
     transitions = replicate SM_MAX_TRANSITIONS_PER_STATE zero_StateTransition,
     transition_count = 0, timeout_ms = 0\<rparr>"

definition zero_ErrorHandler :: ErrorHandler_t where
  "zero_ErrorHandler = \<lparr>current_error = zero_ErrorInfo,
     error_history = replicate ERROR_HISTORY_SIZE zero_ErrorInfo, history_index = 0,
     minor_error_timestamp = 0, minor_good_message_count = 0, critical_lock_active = False\<rparr>"

definition zero_Context :: StateMachineContext_t where
  "zero_Context = \<lparr>current_state = STATE_INIT, previous_state = STATE_INIT,
     pending_event = EVENT_NONE, state_entry_time = 0, state_execution_count = 0,
     state_changed = False, error_handler = zero_ErrorHandler\<rparr>"

section \<open>Platform timing (\<^verbatim>\<open>sm_platform_weak.c\<close>)\<close>

definition Platform_GetTimeMs :: "world \<Rightarrow> u32 \<times> world" where
  "Platform_GetTimeMs w = (clock w (clock_reads w), w\<lparr>clock_reads := Suc (clock_reads w)\<rparr>)"

definition Platform_IsTimeout :: "u32 \<Rightarrow> u32 \<Rightarrow> world \<Rightarrow> bool \<times> world" where
  "Platform_IsTimeout start_time_ms tmo w =
     (let (current_time, w1) = Platform_GetTimeMs w in
      if current_time \<ge> start_time_ms
      then (current_time - start_time_ms \<ge> tmo, w1)
      else ((0xFFFFFFFF - start_time_ms) + current_time \<ge> tmo, w1))"

section \<open>Event posting and state queries (\<^verbatim>\<open>sm_state_machine.c\<close>)\<close>

definition StateMachine_PostEvent :: "StateMachineEvent_t \<Rightarrow> world \<Rightarrow> bool \<times> world" where
  "StateMachine_PostEvent e w =
     (if event_num e \<ge> EVENT_MAX \<or> e = EVENT_NONE then (False, w)
      else if pending_event (g_sm_context w) \<noteq> EVENT_NONE then (False, w)
      else (True, upd_ctx (\<lambda>c. c\<lparr>pending_event := e\<rparr>) w))"

definition StateMachine_GetCurrentState :: "world \<Rightarrow> StateMachineState_t" where
  "StateMachine_GetCurrentState w = current_state (g_sm_context w)"

definition StateMachine_GetPreviousState :: "world \<Rightarrow> StateMachineState_t" where
  "StateMachine_GetPreviousState w = previous_state (g_sm_context w)"

definition StateMachine_GetStateTime :: "world \<Rightarrow> u32 \<times> world" where
  "StateMachine_GetStateTime w =
     (let (now, w1) = Platform_GetTimeMs w in (now - state_entry_time (g_sm_context w1), w1))"

definition StateMachine_GetExecutionCount :: "world \<Rightarrow> u32" where
  "StateMachine_GetExecutionCount w = state_execution_count (g_sm_context w)"

section \<open>Error handler (\<^verbatim>\<open>sm_error_handler.c\<close>)\<close>

definition ErrorHandler_Init :: "world \<Rightarrow> bool \<times> world" where
  "ErrorHandler_Init w =
     (let w1 = upd_handler (\<lambda>_. zero_ErrorHandler) w;
          w2 = w1\<lparr>g_comm_verification :=
                 \<lparr>window_start_time = 0, good_message_count = 0, is_verified = False\<rparr>\<rparr>;
          w3 = w2\<lparr>g_recovery_handlers := (\<lambda>_. None)\<rparr>;
          w4 = upd_current_error (\<lambda>e. e\<lparr>level := ERROR_LEVEL_NONE, code := ERROR_CODE_NONE\<rparr>) w3;
          w5 = upd_handler (\<lambda>h. h\<lparr>critical_lock_active := False\<rparr>) w4
      in (True, w5))"

text \<open>
  \<^verbatim>\<open>(history_index + 1) % ERROR_HISTORY_SIZE\<close> is computed in \<^verbatim>\<open>unsigned int\<close> (the
  constant is \<^verbatim>\<open>16U\<close>) and stored back into the \<^verbatim>\<open>uint8_t\<close> index.
\<close>

definition AddErrorToHistory :: "ErrorInfo_t \<Rightarrow> world \<Rightarrow> world" where
  "AddErrorToHistory error_info w =
     upd_handler (\<lambda>h. h\<lparr>error_history := (error_history h)[unat (history_index h) := error_info],
                        history_index := of_nat ((unat (history_index h) + 1) mod ERROR_HISTORY_SIZE)\<rparr>) w"

definition ErrorHandler_VerifyCommChannel :: "world \<Rightarrow> bool \<times> world" where
  "ErrorHandler_VerifyCommChannel w =
     (let (current_time, w1) = Platform_GetTimeMs w;
          cv = g_comm_verification w1 in
      if current_time - window_start_time cv \<le> COMM_VERIFICATION_WINDOW_MS then
        (let cv1 = cv\<lparr>good_message_count := good_message_count cv + 1\<rparr> in
         if good_message_count cv1 \<ge> COMM_VERIFICATION_COUNT
         then (True, w1\<lparr>g_comm_verification := cv1\<lparr>is_verified := True\<rparr>\<rparr>)
         else (False, w1\<lparr>g_comm_verification := cv1\<rparr>))
      else (False, w1\<lparr>g_comm_verification :=
                        cv\<lparr>window_start_time := current_time, good_message_count := 1\<rparr>\<rparr>))"

definition ErrorHandler_HandleNormalError :: "ErrorCode_t \<Rightarrow> world \<Rightarrow> bool \<times> world" where
  "ErrorHandler_HandleNormalError c w =
     (let w1 = upd_current_error (\<lambda>e. e\<lparr>level := ERROR_LEVEL_NORMAL, code := c\<rparr>) w;
          (now, w2) = Platform_GetTimeMs w1;
          w3 = upd_current_error (\<lambda>e. e\<lparr>timestamp := now\<rparr>) w2;
          w4 = upd_current_error (\<lambda>e. e\<lparr>state := StateMachine_GetCurrentState w3,
                                            retry_count := 0, is_recovered := False\<rparr>) w3;
          (_, w5) = StateMachine_PostEvent EVENT_ERROR_NORMAL w4
      in (True, w5))"

definition ErrorHandler_HandleCriticalError :: "ErrorCode_t \<Rightarrow> world \<Rightarrow> world" where
  "ErrorHandler_HandleCriticalError c w =
     (let w1 = upd_current_error (\<lambda>e. e\<lparr>level := ERROR_LEVEL_CRITICAL, code := c\<rparr>) w;
          (now, w2) = Platform_GetTimeMs w1;
          w3 = upd_current_error (\<lambda>e. e\<lparr>timestamp := now\<rparr>) w2;
          w4 = upd_current_error (\<lambda>e. e\<lparr>state := StateMachine_GetCurrentState w3,
                                            retry_count := 0, is_recovered := False\<rparr>) w3;
          w5 = upd_handler (\<lambda>h. h\<lparr>critical_lock_active := True\<rparr>) w4;
          (_, w6) = StateMachine_PostEvent EVENT_ERROR_CRITICAL w5
      in w6)"

definition ErrorHandler_HandleMinorError :: "ErrorCode_t \<Rightarrow> world \<Rightarrow> bool \<times> world" where
  "ErrorHandler_HandleMinorError c w =
     (let (current_time, w1) = Platform_GetTimeMs w;
          w2 = (if minor_error_timestamp (handler_of w1) = 0
                then upd_handler (\<lambda>h. h\<lparr>minor_error_timestamp := current_time,
                                          minor_good_message_count := 0\<rparr>) w1
                else w1) in
      if current_time - minor_error_timestamp (handler_of w2) \<le> ERROR_MINOR_TIMEOUT_MS then
        (let (ok, w3) = ErrorHandler_VerifyCommChannel w2 in
         if ok then
           (let w4 = upd_handler (\<lambda>h. h\<lparr>minor_good_message_count := minor_good_message_count h + 1\<rparr>) w3 in
            if minor_good_message_count (handler_of w4) \<ge> COMM_VERIFICATION_COUNT
            then (True, upd_handler (\<lambda>h. h\<lparr>minor_error_timestamp := 0,
                                              minor_good_message_count := 0\<rparr>) w4)
            else (True, w4))
         else (True, w3))
      else ErrorHandler_HandleNormalError c w2)"

definition ErrorHandler_Report :: "ErrorLevel_t \<Rightarrow> ErrorCode_t \<Rightarrow> world \<Rightarrow> bool \<times> world" where
  "ErrorHandler_Report l c w =
     (let (now, w1) = Platform_GetTimeMs w;
          error_info = \<lparr>level = l, code = c, timestamp = now,
                        state = StateMachine_GetCurrentState w1,
                        retry_count = 0, is_recovered = False\<rparr>;
          w2 = AddErrorToHistory error_info w1 in
      case l of
        ERROR_LEVEL_MINOR \<Rightarrow> ErrorHandler_HandleMinorError c w2
      | ERROR_LEVEL_NORMAL \<Rightarrow> ErrorHandler_HandleNormalError c w2
      | ERROR_LEVEL_CRITICAL \<Rightarrow> (True, ErrorHandler_HandleCriticalError c w2)
      | _ \<Rightarrow> (False, w2))"

definition ErrorHandler_AttemptRecovery :: "world \<Rightarrow> bool \<times> world" where
  "ErrorHandler_AttemptRecovery w =
     (if level (current_error (handler_of w)) = ERROR_LEVEL_NONE then (True, w)
      else
        let w1 = upd_current_error (\<lambda>e. e\<lparr>retry_count := retry_count e + 1\<rparr>) w;
            ce = current_error (handler_of w1) in
        if retry_count ce \<ge> ERROR_MAX_RECOVERY_ATTEMPTS then (False, w1)
        else
          case g_recovery_handlers w1 (code ce) of
            Some h \<Rightarrow> (h (code ce), w1)
          | None \<Rightarrow>
              (case code ce of
                 ERROR_CODE_COMM_LOST \<Rightarrow>
                   (let (ok, w2) = ErrorHandler_VerifyCommChannel w1 in
                    if ok then (True, upd_current_error (\<lambda>e. e\<lparr>is_recovered := True\<rparr>) w2)
                    else (False, w2))
               | ERROR_CODE_TIMEOUT \<Rightarrow>
                   (True, upd_current_error (\<lambda>e. e\<lparr>is_recovered := True\<rparr>) w1)
               | _ \<Rightarrow> (False, w1)))"

definition ErrorHandler_ClearError :: "world \<Rightarrow> world" where
  "ErrorHandler_ClearError w =
     upd_current_error (\<lambda>e. e\<lparr>level := ERROR_LEVEL_NONE, code := ERROR_CODE_NONE,
                              retry_count := 0\<rparr>) w"

definition ErrorHandler_IsCriticalLock :: "world \<Rightarrow> bool" where
  "ErrorHandler_IsCriticalLock w = critical_lock_active (handler_of w)"

text \<open>
  An output pointer is either null or points to storage of the caller. A function that
  fills it returns \<open>Some\<close> of the value written when the C function returns
  \<^verbatim>\<open>true\<close>, and \<open>None\<close> when it returns \<^verbatim>\<open>false\<close> (nothing is written then).
\<close>

datatype out_ptr = NULL | NonNull

definition ErrorHandler_GetCurrentError :: "out_ptr \<Rightarrow> world \<Rightarrow> ErrorInfo_t option" where
  "ErrorHandler_GetCurrentError p w =
     (if p = NULL then None else Some (current_error (handler_of w)))"

text \<open>
  \<^verbatim>\<open>(history_index + ERROR_HISTORY_SIZE - index - 1) % ERROR_HISTORY_SIZE\<close> is computed
  in \<^verbatim>\<open>unsigned int\<close>; past the guard \<^verbatim>\<open>index < 16\<close>, so the subtraction does not wrap.
\<close>

definition ErrorHandler_GetHistoryError :: "u8 \<Rightarrow> out_ptr \<Rightarrow> world \<Rightarrow> ErrorInfo_t option" where
  "ErrorHandler_GetHistoryError index p w =
     (if p = NULL \<or> unat index \<ge> ERROR_HISTORY_SIZE then None
      else
        let actual_index = (unat (history_index (handler_of w)) + ERROR_HISTORY_SIZE
                              - unat index - 1) mod ERROR_HISTORY_SIZE
        in Some (error_history (handler_of w) ! actual_index))"

definition ErrorHandler_GetHistoryCount :: "world \<Rightarrow> u8" where
  "ErrorHandler_GetHistoryCount w = of_nat ERROR_HISTORY_SIZE"

definition ErrorHandler_RegisterRecoveryHandler ::
    "ErrorCode_t \<Rightarrow> ErrorRecoveryHandler_t option \<Rightarrow> world \<Rightarrow> bool \<times> world" where
  "ErrorHandler_RegisterRecoveryHandler c h w =
     (if code_num c \<ge> ERROR_CODE_MAX then (False, w)
      else (True, w\<lparr>g_recovery_handlers := (g_recovery_handlers w)(c := h)\<rparr>))"

section \<open>State callbacks (\<^verbatim>\<open>sm_state_machine.c\<close>)\<close>

text \<open>
  The body of each callback. Callbacks that only write to the debug sink leave the world
  as it is. \<open>run_callback\<close> is the call through a table entry's function pointer.
\<close>

definition Init_OnEntry_body :: "world \<Rightarrow> world" where
  "Init_OnEntry_body w = w\<lparr>g_state_data := (g_state_data w)\<lparr>init_step_count := 0\<rparr>\<rparr>"

definition Init_OnState_body :: "world \<Rightarrow> world" where
  "Init_OnState_body w =
     (let INIT_REQUIRED_STEPS = (5 :: u32);
          w1 = w\<lparr>g_state_data :=
                 (g_state_data w)\<lparr>init_step_count := init_step_count (g_state_data w) + 1\<rparr>\<rparr> in
      if init_step_count (g_state_data w1) \<ge> INIT_REQUIRED_STEPS
      then snd (StateMachine_PostEvent EVENT_INIT_COMPLETE w1)
      else w1)"

definition Processing_OnState_body :: "world \<Rightarrow> world" where
  "Processing_OnState_body w =
     (let PROCESSING_CYCLES = (20 :: u32) in
      if state_execution_count (g_sm_context w) \<ge> PROCESSING_CYCLES
      then snd (StateMachine_PostEvent EVENT_PROCESSING_DONE w)
      else w)"

definition Communicating_OnEntry_body :: "world \<Rightarrow> world" where
  "Communicating_OnEntry_body w = w\<lparr>g_state_data := (g_state_data w)\<lparr>comm_started := False\<rparr>\<rparr>"

definition Communicating_OnState_body :: "world \<Rightarrow> world" where
  "Communicating_OnState_body w =
     (let COMM_CYCLES = (8 :: u32);
          w1 = (if \<not> comm_started (g_state_data w)
                then w\<lparr>g_state_data := (g_state_data w)\<lparr>comm_started := True\<rparr>\<rparr>
                else w) in
      if state_execution_count (g_sm_context w1) \<ge> COMM_CYCLES then
        (let (ok, w2) = ErrorHandler_VerifyCommChannel w1 in
         if ok then snd (StateMachine_PostEvent EVENT_COMM_COMPLETE w2) else w2)
      else w1)"

definition Communicating_OnExit_body :: "world \<Rightarrow> world" where
  "Communicating_OnExit_body w = w\<lparr>g_state_data := (g_state_data w)\<lparr>comm_started := False\<rparr>\<rparr>"

definition Calibrating_OnState_body :: "world \<Rightarrow> world" where
  "Calibrating_OnState_body w =
     (let CALIBRATION_CYCLES = (30 :: u32) in
      if state_execution_count (g_sm_context w) \<ge> CALIBRATION_CYCLES
      then snd (StateMachine_PostEvent EVENT_PROCESSING_DONE w)
      else w)"

definition Diagnostics_OnState_body :: "world \<Rightarrow> world" where
  "Diagnostics_OnState_body w =
     (let DIAGNOSTIC_CYCLES = (15 :: u32) in
      if state_execution_count (g_sm_context w) \<ge> DIAGNOSTIC_CYCLES
      then snd (StateMachine_PostEvent EVENT_PROCESSING_DONE w)
      else w)"

definition Recovery_OnState_body :: "world \<Rightarrow> world" where
  "Recovery_OnState_body w =
     (let (recovery_successful, w1) = ErrorHandler_AttemptRecovery w in
      if recovery_successful then
        snd (StateMachine_PostEvent EVENT_RECOVERY_SUCCESS (ErrorHandler_ClearError w1))
      else
        (case ErrorHandler_GetCurrentError NonNull w1 of
           Some error_info \<Rightarrow>
             if retry_count error_info \<ge> ERROR_MAX_RECOVERY_ATTEMPTS
             then snd (StateMachine_PostEvent EVENT_RECOVERY_FAILED w1)
             else w1
         | None \<Rightarrow> w1))"

fun run_callback :: "callback \<Rightarrow> world \<Rightarrow> world" where
  "run_callback State_Init_OnEntry w = Init_OnEntry_body w"
| "run_callback State_Init_OnState w = Init_OnState_body w"
| "run_callback State_Processing_OnState w = Processing_OnState_body w"
| "run_callback State_Communicating_OnEntry w = Communicating_OnEntry_body w"
| "run_callback State_Communicating_OnState w = Communicating_OnState_body w"
| "run_callback State_Communicating_OnExit w = Communicating_OnExit_body w"
| "run_callback State_Calibrating_OnState w = Calibrating_OnState_body w"
| "run_callback State_Diagnostics_OnState w = Diagnostics_OnState_body w"
| "run_callback State_Recovery_OnState w = Recovery_OnState_body w"
| "run_callback _ w = w"

text \<open>
  A call through a possibly null function pointer, as in
  \<^verbatim>\<open>if (cfg->on_exit != NULL) { cfg->on_exit(); }\<close>; the call is logged in \<open>hook_calls\<close>.
\<close>

definition invoke :: "callback option \<Rightarrow> world \<Rightarrow> world" where
  "invoke p w =
     (case p of None \<Rightarrow> w
      | Some cb \<Rightarrow> run_callback cb (w\<lparr>hook_calls := hook_calls w @ [cb]\<rparr>))"

section \<open>The engine (\<^verbatim>\<open>sm_state_machine.c\<close>)\<close>

definition PerformStateTransition :: "StateMachineState_t \<Rightarrow> world \<Rightarrow> world" where
  "PerformStateTransition new_state w =
     (if state_num new_state \<ge> STATE_MAX then w
      else
        let current_config = g_state_table w (current_state (g_sm_context w));
            w1 = invoke (on_exit current_config) w
        in upd_ctx (\<lambda>c. c\<lparr>previous_state := current_state c, current_state := new_state,
                          state_changed := True\<rparr>) w1)"

text \<open>
  The search loop of \<^verbatim>\<open>CheckStateTransition\<close>, from index \<open>i\<close>: the first entry below
  \<^verbatim>\<open>transition_count\<close> whose event matches gives the next state.
\<close>

function CheckStateTransition_loop ::
    "StateConfig_t \<Rightarrow> StateMachineEvent_t \<Rightarrow> nat \<Rightarrow> StateMachineState_t option" where
  "CheckStateTransition_loop cfg e i =
     (if i < unat (transition_count cfg) then
        (if event (transitions cfg ! i) = e then Some (next_state (transitions cfg ! i))
         else CheckStateTransition_loop cfg e (i + 1))
      else None)"
  by pat_completeness auto
termination
  by (relation "measure (\<lambda>(cfg, e, i). unat (transition_count cfg) - i)") auto

definition CheckStateTransition ::
    "StateMachineEvent_t \<Rightarrow> out_ptr \<Rightarrow> world \<Rightarrow> StateMachineState_t option" where
  "CheckStateTransition e p w =
     (if p = NULL then None
      else CheckStateTransition_loop (g_state_table w (current_state (g_sm_context w))) e 0)"

text \<open>
  \<^verbatim>\<open>StateMachine_Execute\<close>, block by block. \<open>cs\<close> is the state at entry: the C code
  takes \<^verbatim>\<open>current_state_config = &g_state_table[current_state]\<close> once, before any callback.
\<close>

definition Execute_entry_block :: "StateMachineState_t \<Rightarrow> world \<Rightarrow> world" where
  "Execute_entry_block cs w =
     (if state_changed (g_sm_context w) then
        (let w1 = invoke (on_entry (g_state_table w cs)) w;
             w2 = upd_ctx (\<lambda>c. c\<lparr>state_changed := False\<rparr>) w1;
             (now, w3) = Platform_GetTimeMs w2
         in upd_ctx (\<lambda>c. c\<lparr>state_entry_time := now, state_execution_count := 0\<rparr>) w3)
      else w)"

definition Execute_state_block :: "StateMachineState_t \<Rightarrow> world \<Rightarrow> world" where
  "Execute_state_block cs w =
     (let w1 = invoke (on_state (g_state_table w cs)) w
      in upd_ctx (\<lambda>c. c\<lparr>state_execution_count := state_execution_count c + 1\<rparr>) w1)"

definition Execute_timeout_block :: "StateMachineState_t \<Rightarrow> world \<Rightarrow> world" where
  "Execute_timeout_block cs w =
     (if timeout_ms (g_state_table w cs) > 0 then
        (let (expired, w1) = Platform_IsTimeout (state_entry_time (g_sm_context w))
                               (timeout_ms (g_state_table w cs)) w
         in if expired then snd (StateMachine_PostEvent EVENT_TIMEOUT w1) else w1)
      else w)"

definition Execute_event_block :: "world \<Rightarrow> world" where
  "Execute_event_block w =
     (if pending_event (g_sm_context w) \<noteq> EVENT_NONE then
        (let w1 = (case CheckStateTransition (pending_event (g_sm_context w)) NonNull w of
                     Some nxt \<Rightarrow> PerformStateTransition nxt w
                   | None \<Rightarrow> w)
         in upd_ctx (\<lambda>c. c\<lparr>pending_event := EVENT_NONE\<rparr>) w1)
      else w)"

definition StateMachine_Execute :: "world \<Rightarrow> StateMachineState_t \<times> world" where
  "StateMachine_Execute w =
     (if critical_lock_active (error_handler (g_sm_context w)) then
        (let w1 = (if current_state (g_sm_context w) \<noteq> STATE_CRITICAL_ERROR
                   then PerformStateTransition STATE_CRITICAL_ERROR w else w)
         in (current_state (g_sm_context w1), w1))
      else
        let cs = current_state (g_sm_context w);
            w1 = Execute_entry_block cs w;
            w2 = Execute_state_block cs w1;
            w3 = Execute_timeout_block cs w2;
            w4 = Execute_event_block w3
        in (current_state (g_sm_context w4), w4))"

definition StateMachine_Reset :: "world \<Rightarrow> world" where
  "StateMachine_Reset w =
     (if critical_lock_active (error_handler (g_sm_context w)) then w
      else
        let w1 = ErrorHandler_ClearError w;
            w2 = w1\<lparr>g_state_data := \<lparr>init_step_count = 0, comm_started = False\<rparr>\<rparr>
        in PerformStateTransition STATE_INIT w2)"

subsection \<open>Table mutators\<close>

definition StateMachine_AddTransition ::
    "StateMachineState_t \<Rightarrow> StateMachineEvent_t \<Rightarrow> StateMachineState_t \<Rightarrow> world \<Rightarrow> bool \<times> world" where
  "StateMachine_AddTransition s e nxt w =
     (if state_num s \<ge> STATE_MAX \<or> event_num e \<ge> EVENT_MAX \<or> state_num nxt \<ge> STATE_MAX
      then (False, w)
      else
        let config = g_state_table w s in
        if unat (transition_count config) \<ge> SM_MAX_TRANSITIONS_PER_STATE then (False, w)
        else (True, w\<lparr>g_state_table := (g_state_table w)
                (s := config\<lparr>transitions := (transitions config)
                                 [unat (transition_count config) := \<lparr>event = e, next_state = nxt\<rparr>],
                              transition_count := transition_count config + 1\<rparr>)\<rparr>))"

definition StateMachine_SetStateTimeout :: "StateMachineState_t \<Rightarrow> u32 \<Rightarrow> world \<Rightarrow> bool \<times> world" where
  "StateMachine_SetStateTimeout s tmo w =
     (if state_num s \<ge> STATE_MAX then (False, w)
      else (True, w\<lparr>g_state_table := (g_state_table w)
              (s := (g_state_table w s)\<lparr>timeout_ms := tmo\<rparr>)\<rparr>))"

definition StateMachine_SetStateCallbacks ::
    "StateMachineState_t \<Rightarrow> callback option \<Rightarrow> callback option \<Rightarrow> callback option
      \<Rightarrow> world \<Rightarrow> bool \<times> world" where
  "StateMachine_SetStateCallbacks s en st ex w =
     (if state_num s \<ge> STATE_MAX then (False, w)
      else (True, w\<lparr>g_state_table := (g_state_table w)
              (s := (g_state_table w s)\<lparr>on_entry := en, on_state := st, on_exit := ex\<rparr>)\<rparr>))"

subsection \<open>Initialisation\<close>

text \<open>
  One configuration block of \<^verbatim>\<open>InitializeStateTable\<close>: the assignments to
  \<^verbatim>\<open>state_id\<close>, the three callbacks and \<^verbatim>\<open>timeout_ms\<close>, the stores
  \<^verbatim>\<open>transitions[idx++] = ...\<close> starting from \<^verbatim>\<open>idx = 0\<close>, and
  \<^verbatim>\<open>transition_count = idx\<close>.
\<close>

fun store_transitions ::
    "StateTransition_t list \<Rightarrow> nat \<Rightarrow> StateTransition_t list \<Rightarrow> StateTransition_t list" where
  "store_transitions [] idx ts = ts"
| "store_transitions (r # rs) idx ts = store_transitions rs (idx + 1) (ts[idx := r])"

definition configure_state ::
    "StateMachineState_t \<Rightarrow> callback \<Rightarrow> callback \<Rightarrow> callback \<Rightarrow> u32
      \<Rightarrow> (StateMachineEvent_t \<times> StateMachineState_t) list
      \<Rightarrow> (StateMachineState_t \<Rightarrow> StateConfig_t) \<Rightarrow> (StateMachineState_t \<Rightarrow> StateConfig_t)" where
  "configure_state s en st ex tmo rules tbl =
     tbl(s := (tbl s)\<lparr>state_id := s, on_entry := Some en, on_state := Some st, on_exit := Some ex,
                       timeout_ms := tmo,
                       transitions := store_transitions
                         (map (\<lambda>(e, nxt). \<lparr>event = e, next_state = nxt\<rparr>) rules) 0 (transitions (tbl s)),
                       transition_count := of_nat (length rules)\<rparr>)"

definition InitializeStateTable ::
    "(StateMachineState_t \<Rightarrow> StateConfig_t) \<Rightarrow> (StateMachineState_t \<Rightarrow> StateConfig_t)" where
  "InitializeStateTable tbl =
     (let t0 = configure_state STATE_INIT State_Init_OnEntry State_Init_OnState State_Init_OnExit
                 SM_STATE_TIMEOUT_MS
                 [(EVENT_INIT_COMPLETE, STATE_IDLE), (EVENT_ERROR_NORMAL, STATE_RECOVERY),
                  (EVENT_ERROR_CRITICAL, STATE_CRITICAL_ERROR), (EVENT_TIMEOUT, STATE_RECOVERY)] tbl;
          t1 = configure_state STATE_IDLE State_Idle_OnEntry State_Idle_OnState State_Idle_OnExit 0
                 [(EVENT_START, STATE_ACTIVE), (EVENT_ERROR_NORMAL, STATE_RECOVERY),
                  (EVENT_ERROR_CRITICAL, STATE_CRITICAL_ERROR)] t0;
          t2 = configure_state STATE_ACTIVE State_Active_OnEntry State_Active_OnState
                 State_Active_OnExit 0
                 [(EVENT_DATA_READY, STATE_PROCESSING), (EVENT_STOP, STATE_IDLE),
                  (EVENT_ERROR_NORMAL, STATE_RECOVERY), (EVENT_ERROR_CRITICAL, STATE_CRITICAL_ERROR)] t1;
          t3 = configure_state STATE_PROCESSING State_Processing_OnEntry State_Processing_OnState
                 State_Processing_OnExit 3000
                 [(EVENT_PROCESSING_DONE, STATE_COMMUNICATING), (EVENT_TIMEOUT, STATE_RECOVERY),
                  (EVENT_ERROR_NORMAL, STATE_RECOVERY), (EVENT_ERROR_CRITICAL, STATE_CRITICAL_ERROR)] t2;
          t4 = configure_state STATE_COMMUNICATING State_Communicating_OnEntry
                 State_Communicating_OnState State_Communicating_OnExit COMM_TIMEOUT_MS
                 [(EVENT_COMM_COMPLETE, STATE_MONITORING), (EVENT_TIMEOUT, STATE_RECOVERY),
                  (EVENT_ERROR_NORMAL, STATE_RECOVERY), (EVENT_ERROR_CRITICAL, STATE_CRITICAL_ERROR)] t3;
          t5 = configure_state STATE_MONITORING State_Monitoring_OnEntry State_Monitoring_OnState
                 State_Monitoring_OnExit 0
                 [(EVENT_STOP, STATE_IDLE), (EVENT_DATA_READY, STATE_PROCESSING),
                  (EVENT_ERROR_NORMAL, STATE_RECOVERY), (EVENT_ERROR_CRITICAL, STATE_CRITICAL_ERROR)] t4;
          t6 = configure_state STATE_CALIBRATING State_Calibrating_OnEntry State_Calibrating_OnState
                 State_Calibrating_OnExit 5000
                 [(EVENT_PROCESSING_DONE, STATE_DIAGNOSTICS), (EVENT_TIMEOUT, STATE_RECOVERY),
                  (EVENT_ERROR_NORMAL, STATE_RECOVERY), (EVENT_ERROR_CRITICAL, STATE_CRITICAL_ERROR)] t5;
          t7 = configure_state STATE_DIAGNOSTICS State_Diagnostics_OnEntry State_Diagnostics_OnState
                 State_Diagnostics_OnExit 2000
                 [(EVENT_PROCESSING_DONE, STATE_ACTIVE), (EVENT_TIMEOUT, STATE_RECOVERY),
                  (EVENT_ERROR_NORMAL, STATE_RECOVERY), (EVENT_ERROR_CRITICAL, STATE_CRITICAL_ERROR)] t6;
          t8 = configure_state STATE_RECOVERY State_Recovery_OnEntry State_Recovery_OnState
                 State_Recovery_OnExit 2000
                 [(EVENT_RECOVERY_SUCCESS, STATE_IDLE), (EVENT_RECOVERY_FAILED, STATE_CRITICAL_ERROR),
                  (EVENT_TIMEOUT, STATE_CRITICAL_ERROR), (EVENT_ERROR_CRITICAL, STATE_CRITICAL_ERROR)] t7
      in t8(STATE_CRITICAL_ERROR := (t8 STATE_CRITICAL_ERROR)
              \<lparr>state_id := STATE_CRITICAL_ERROR,
               on_entry := Some State_CriticalError_OnEntry,
               on_state := Some State_CriticalError_OnState,
               on_exit := Some State_CriticalError_OnExit,
               timeout_ms := 0, transition_count := 0\<rparr>))"

definition StateMachine_Init :: "world \<Rightarrow> bool \<times> world" where
  "StateMachine_Init w =
     (let w1 = w\<lparr>g_sm_context := zero_Context, g_state_table := (\<lambda>_. zero_StateConfig),
                 g_state_data := \<lparr>init_step_count = 0, comm_started = False\<rparr>\<rparr>;
          w2 = upd_ctx (\<lambda>c. c\<lparr>current_state := STATE_INIT, previous_state := STATE_INIT,
                              pending_event := EVENT_NONE\<rparr>) w1;
          (now, w3) = Platform_GetTimeMs w2;
          w4 = upd_ctx (\<lambda>c. c\<lparr>state_entry_time := now, state_execution_count := 0,
                              state_changed := False\<rparr>) w3;
          (ok, w5) = ErrorHandler_Init w4
      in if \<not> ok then (False, w5)
         else (True, w5\<lparr>g_state_table := InitializeStateTable (g_state_table w5)\<rparr>))"

text \<open>The rule list of a table entry: the first \<^verbatim>\<open>transition_count\<close> entries.\<close>

definition rules_of :: "StateConfig_t \<Rightarrow> (StateMachineEvent_t \<times> StateMachineState_t) list" where
  "rules_of cfg = map (\<lambda>r. (event r, next_state r)) (take (unat (transition_count cfg)) (transitions cfg))"

section \<open>Auxiliary definitions for the statements\<close>

text \<open>
  What no callback of the repository changes: the lockout flag, the state, the previous
  state, the change flag, the entry stamp, the execution counter, the table and the log of
  callback invocations.
\<close>

definition hook_frame :: "world \<Rightarrow> world \<Rightarrow> bool" where
  "hook_frame w w' \<longleftrightarrow>
     lockout w' = lockout w \<and>
     current_state (g_sm_context w') = current_state (g_sm_context w) \<and>
     previous_state (g_sm_context w') = previous_state (g_sm_context w) \<and>
     state_changed (g_sm_context w') = state_changed (g_sm_context w) \<and>
     state_entry_time (g_sm_context w') = state_entry_time (g_sm_context w) \<and>
     state_execution_count (g_sm_context w') = state_execution_count (g_sm_context w) \<and>
     g_state_table w' = g_state_table w \<and>
     hook_calls w' = hook_calls w"

text \<open>
  A table entry whose \<^verbatim>\<open>transitions\<close> array has its five slots and whose
  \<^verbatim>\<open>transition_count\<close> stays inside it, as \<^verbatim>\<open>InitializeStateTable\<close> and
  \<^verbatim>\<open>StateMachine_AddTransition\<close> leave it; the search loop then reads inside the array.
\<close>

definition config_wf :: "StateConfig_t \<Rightarrow> bool" where
  "config_wf cfg \<longleftrightarrow> length (transitions cfg) = SM_MAX_TRANSITIONS_PER_STATE \<and>
     unat (transition_count cfg) \<le> SM_MAX_TRANSITIONS_PER_STATE"

text \<open>\<open>n\<close> successive ticks.\<close>

fun ticks :: "nat \<Rightarrow> world \<Rightarrow> world" where
  "ticks 0 w = w"
| "ticks (Suc n) w = ticks n (snd (StateMachine_Execute w))"

text \<open>A sequence of \<^verbatim>\<open>StateMachine_PostEvent\<close> calls with no tick in between, with their results.\<close>

fun post_events :: "StateMachineEvent_t list \<Rightarrow> world \<Rightarrow> bool list \<times> world" where
  "post_events [] w = ([], w)"
| "post_events (e # es) w =
     (let (r, w1) = StateMachine_PostEvent e w;
          (rs, w2) = post_events es w1
      in (r # rs, w2))"

text \<open>
  The world at program start: zero-initialised statics, the default clock of
  \<^verbatim>\<open>sm_platform_weak.c\<close> (a counter that advances on every read), nothing logged.
  \<open>booted\<close> is the world after \<^verbatim>\<open>StateMachine_Init\<close>.
\<close>

definition power_on :: world where
  "power_on = \<lparr>g_sm_context = zero_Context, g_state_table = (\<lambda>_. zero_StateConfig),
     g_state_data = \<lparr>init_step_count = 0, comm_started = False\<rparr>,
     g_comm_verification = \<lparr>window_start_time = 0, good_message_count = 0, is_verified = False\<rparr>,
     g_recovery_handlers = (\<lambda>_. None), clock = (\<lambda>k. of_nat k), clock_reads = 0,
     hook_calls = []\<rparr>"

definition booted :: world where
  "booted = snd (StateMachine_Init power_on)"

text \<open>An occupied pending slot keeps its event from \<open>w\<close> to \<open>w'\<close>.\<close>

definition keeps_pending :: "world \<Rightarrow> world \<Rightarrow> bool" where
  "keeps_pending w w' \<longleftrightarrow>
     (if pending_event (g_sm_context w) = EVENT_NONE then True
      else pending_event (g_sm_context w') = pending_event (g_sm_context w))"

text \<open>
  The history array has its sixteen slots and the write index is inside it (so after
  \<^verbatim>\<open>StateMachine_Init\<close>, and after every report).
\<close>

definition history_wf :: "world \<Rightarrow> bool" where
  "history_wf w \<longleftrightarrow> length (error_history (handler_of w)) = ERROR_HISTORY_SIZE \<and>
     unat (history_index (handler_of w)) < ERROR_HISTORY_SIZE"

text \<open>The record \<^verbatim>\<open>ErrorHandler_Report\<close> builds when it is called in world \<open>w\<close>.\<close>

definition report_record :: "ErrorLevel_t \<Rightarrow> ErrorCode_t \<Rightarrow> world \<Rightarrow> ErrorInfo_t" where
  "report_record l c w = \<lparr>level = l, code = c, timestamp = fst (Platform_GetTimeMs w),
     state = current_state (g_sm_context w), retry_count = 0, is_recovered = False\<rparr>"

text \<open>A sequence of reports, oldest first.\<close>

fun run_reports :: "(ErrorLevel_t \<times> ErrorCode_t) list \<Rightarrow> world \<Rightarrow> world" where
  "run_reports [] w = w"
| "run_reports (r # rs) w = run_reports rs (snd (ErrorHandler_Report (fst r) (snd r) w))"

text \<open>\<open>n\<close> successive calls of \<^verbatim>\<open>ErrorHandler_AttemptRecovery\<close>, with their results in order.\<close>

fun attempts :: "nat \<Rightarrow> world \<Rightarrow> bool list \<times> world" where
  "attempts 0 w = ([], w)"
| "attempts (Suc n) w =
     (let (r, w1) = ErrorHandler_AttemptRecovery w;
          (rs, w2) = attempts n w1
      in (r # rs, w2))"

text \<open>
  The calls a client can make between initialisations: every function of the public
  interface that changes the world, apart from the two initialisation functions
  \<^verbatim>\<open>StateMachine_Init\<close> and \<^verbatim>\<open>ErrorHandler_Init\<close>.
\<close>

datatype api_call =
    Call_Execute
  | Call_PostEvent StateMachineEvent_t
  | Call_Reset
  | Call_GetStateTime
  | Call_AddTransition StateMachineState_t StateMachineEvent_t StateMachineState_t
  | Call_SetStateTimeout StateMachineState_t u32
  | Call_SetStateCallbacks StateMachineState_t "callback option" "callback option" "callback option"
  | Call_Report ErrorLevel_t ErrorCode_t
  | Call_HandleMinorError ErrorCode_t
  | Call_HandleNormalError ErrorCode_t
  | Call_HandleCriticalError ErrorCode_t
  | Call_AttemptRecovery
  | Call_ClearError
  | Call_VerifyCommChannel
  | Call_RegisterRecoveryHandler ErrorCode_t "ErrorRecoveryHandler_t option"

fun api_step :: "api_call \<Rightarrow> world \<Rightarrow> world" where
  "api_step Call_Execute w = snd (StateMachine_Execute w)"
| "api_step (Call_PostEvent e) w = snd (StateMachine_PostEvent e w)"
| "api_step Call_Reset w = StateMachine_Reset w"
| "api_step Call_GetStateTime w = snd (StateMachine_GetStateTime w)"
| "api_step (Call_AddTransition s e n) w = snd (StateMachine_AddTransition s e n w)"
| "api_step (Call_SetStateTimeout s t) w = snd (StateMachine_SetStateTimeout s t w)"
| "api_step (Call_SetStateCallbacks s en st ex) w = snd (StateMachine_SetStateCallbacks s en st ex w)"
| "api_step (Call_Report l c) w = snd (ErrorHandler_Report l c w)"
| "api_step (Call_HandleMinorError c) w = snd (ErrorHandler_HandleMinorError c w)"
| "api_step (Call_HandleNormalError c) w = snd (ErrorHandler_HandleNormalError c w)"
| "api_step (Call_HandleCriticalError c) w = ErrorHandler_HandleCriticalError c w"
| "api_step Call_AttemptRecovery w = snd (ErrorHandler_AttemptRecovery w)"
| "api_step Call_ClearError w = ErrorHandler_ClearError w"
| "api_step Call_VerifyCommChannel w = snd (ErrorHandler_VerifyCommChannel w)"
| "api_step (Call_RegisterRecoveryHandler c h) w = snd (ErrorHandler_RegisterRecoveryHandler c h w)"

fun run_calls :: "api_call list \<Rightarrow> world \<Rightarrow> world" where
  "run_calls [] w = w"
| "run_calls (a # as) w = run_calls as (api_step a w)"

text \<open>
  A world in \<^verbatim>\<open>STATE_IDLE\<close> whose timeout has been set to 1 ms: after initialisation,
  \<^verbatim>\<open>StateMachine_SetStateTimeout(STATE_IDLE, 1)\<close>, a post of \<^verbatim>\<open>EVENT_INIT_COMPLETE\<close> and
  one tick.
\<close>

definition idle_with_timeout :: world where
  "idle_with_timeout =
     snd (StateMachine_Execute (snd (StateMachine_PostEvent EVENT_INIT_COMPLETE
       (snd (StateMachine_SetStateTimeout STATE_IDLE 1 booted)))))"

section \<open>Frame lemmas\<close>

lemmas callback_defs =
  Init_OnEntry_body_def Init_OnState_body_def Processing_OnState_body_def
  Communicating_OnEntry_body_def Communicating_OnState_body_def Communicating_OnExit_body_def
  Calibrating_OnState_body_def Diagnostics_OnState_body_def Recovery_OnState_body_def

lemma PostEvent_frame: "hook_frame w (snd (StateMachine_PostEvent e w))"
  by (simp add: hook_frame_def StateMachine_PostEvent_def)

lemma GetTimeMs_frame: "hook_frame w (snd (Platform_GetTimeMs w))"
  by (simp add: hook_frame_def Platform_GetTimeMs_def)

lemma VerifyCommChannel_frame: "hook_frame w (snd (ErrorHandler_VerifyCommChannel w))"
  by (simp add: hook_frame_def ErrorHandler_VerifyCommChannel_def Platform_GetTimeMs_def Let_def)

lemma ClearError_frame: "hook_frame w (ErrorHandler_ClearError w)"
  by (simp add: hook_frame_def ErrorHandler_ClearError_def)

lemma AttemptRecovery_frame: "hook_frame w (snd (ErrorHandler_AttemptRecovery w))"
  unfolding ErrorHandler_AttemptRecovery_def
  by (simp add: hook_frame_def Let_def split_beta VerifyCommChannel_frame [unfolded hook_frame_def]
        split: option.splits ErrorCode_t.splits)

lemmas frame_simps =
  PostEvent_frame [unfolded hook_frame_def] VerifyCommChannel_frame [unfolded hook_frame_def]
  ClearError_frame [unfolded hook_frame_def] AttemptRecovery_frame [unfolded hook_frame_def]

lemma run_callback_frame: "hook_frame w (run_callback cb w)"
  by (cases cb)
     (simp_all add: hook_frame_def callback_defs ErrorHandler_GetCurrentError_def Let_def split_beta frame_simps)

lemma invoke_frame:
  "lockout (invoke p w) = lockout w"
  "current_state (g_sm_context (invoke p w)) = current_state (g_sm_context w)"
  "previous_state (g_sm_context (invoke p w)) = previous_state (g_sm_context w)"
  "state_changed (g_sm_context (invoke p w)) = state_changed (g_sm_context w)"
  "state_entry_time (g_sm_context (invoke p w)) = state_entry_time (g_sm_context w)"
  "state_execution_count (g_sm_context (invoke p w)) = state_execution_count (g_sm_context w)"
  "g_state_table (invoke p w) = g_state_table w"
  "hook_calls (invoke p w) = hook_calls w @ (case p of None \<Rightarrow> [] | Some cb \<Rightarrow> [cb])"
  by (simp_all add: invoke_def run_callback_frame [unfolded hook_frame_def] split: option.splits)

lemma PerformStateTransition_simps:
  "lockout (PerformStateTransition n w) = lockout w"
  "current_state (g_sm_context (PerformStateTransition n w)) = n"
  "previous_state (g_sm_context (PerformStateTransition n w)) = current_state (g_sm_context w)"
  "state_changed (g_sm_context (PerformStateTransition n w)) = True"
  "g_state_table (PerformStateTransition n w) = g_state_table w"
  "hook_calls (PerformStateTransition n w) =
     hook_calls w @ (case on_exit (g_state_table w (current_state (g_sm_context w))) of
                       None \<Rightarrow> [] | Some cb \<Rightarrow> [cb])"
  by (cases n; simp add: PerformStateTransition_def Let_def invoke_frame)+

lemma entry_block_simps:
  "lockout (Execute_entry_block cs w) = lockout w"
  "current_state (g_sm_context (Execute_entry_block cs w)) = current_state (g_sm_context w)"
  "g_state_table (Execute_entry_block cs w) = g_state_table w"
  by (simp_all add: Execute_entry_block_def Let_def split_beta Platform_GetTimeMs_def invoke_frame)

lemma state_block_simps:
  "lockout (Execute_state_block cs w) = lockout w"
  "current_state (g_sm_context (Execute_state_block cs w)) = current_state (g_sm_context w)"
  "g_state_table (Execute_state_block cs w) = g_state_table w"
  by (simp_all add: Execute_state_block_def Let_def invoke_frame)

lemma timeout_block_simps:
  "lockout (Execute_timeout_block cs w) = lockout w"
  "current_state (g_sm_context (Execute_timeout_block cs w)) = current_state (g_sm_context w)"
  "g_state_table (Execute_timeout_block cs w) = g_state_table w"
  by (simp_all add: Execute_timeout_block_def Platform_IsTimeout_def Let_def split_beta
        Platform_GetTimeMs_def frame_simps)

lemma event_block_pending:
  "pending_event (g_sm_context (Execute_event_block w)) = EVENT_NONE"
  by (simp add: Execute_event_block_def Let_def)

lemma event_block_lockout: "lockout (Execute_event_block w) = lockout w"
  by (simp add: Execute_event_block_def Let_def PerformStateTransition_simps split: option.splits)

lemma Execute_unlocked_pending:
  "\<not> lockout w \<Longrightarrow> pending_event (g_sm_context (snd (StateMachine_Execute w))) = EVENT_NONE"
  by (simp add: StateMachine_Execute_def Let_def event_block_pending)

lemma Execute_locked_idle:
  "lockout w \<Longrightarrow> current_state (g_sm_context w) = STATE_CRITICAL_ERROR \<Longrightarrow>
   StateMachine_Execute w = (STATE_CRITICAL_ERROR, w)"
  by (simp add: StateMachine_Execute_def)

lemma Execute_locked:
  "lockout w \<Longrightarrow> fst (StateMachine_Execute w) = STATE_CRITICAL_ERROR \<and>
     current_state (g_sm_context (snd (StateMachine_Execute w))) = STATE_CRITICAL_ERROR \<and>
     lockout (snd (StateMachine_Execute w))"
  by (simp add: StateMachine_Execute_def Let_def PerformStateTransition_simps)

lemma Execute_lockout: "lockout (snd (StateMachine_Execute w)) = lockout w"
  by (simp add: StateMachine_Execute_def Let_def PerformStateTransition_simps
        event_block_lockout timeout_block_simps state_block_simps entry_block_simps)

lemma loop_find:
  "i \<le> unat (transition_count cfg) \<Longrightarrow> unat (transition_count cfg) \<le> length (transitions cfg) \<Longrightarrow>
   CheckStateTransition_loop cfg e i =
     map_option snd (find (\<lambda>r. fst r = e) (drop i (rules_of cfg)))"
proof (induction cfg e i rule: CheckStateTransition_loop.induct)
  case (1 cfg e i)
  show ?case
  proof (cases "i < unat (transition_count cfg)")
    case True
    then have d: "drop i (rules_of cfg) =
        (event (transitions cfg ! i), next_state (transitions cfg ! i)) # drop (Suc i) (rules_of cfg)"
      using "1.prems" by (simp add: rules_of_def Cons_nth_drop_Suc [symmetric] drop_map)
    show ?thesis
      using True "1.IH" "1.prems" by (subst CheckStateTransition_loop.simps) (simp add: d)
  next
    case False
    then show ?thesis
      using "1.prems" by (subst CheckStateTransition_loop.simps) (simp add: rules_of_def)
  qed
qed

lemma keeps_pending_refl: "keeps_pending w w"
  by (simp add: keeps_pending_def)

lemma keeps_pending_trans: "keeps_pending a b \<Longrightarrow> keeps_pending b c \<Longrightarrow> keeps_pending a c"
  by (auto simp: keeps_pending_def split: if_splits)

lemma keeps_pending_same:
  "pending_event (g_sm_context w') = pending_event (g_sm_context w) \<Longrightarrow> keeps_pending w w'"
  by (simp add: keeps_pending_def)

lemma PostEvent_keeps: "keeps_pending w (snd (StateMachine_PostEvent e w))"
  by (simp add: keeps_pending_def StateMachine_PostEvent_def)

lemma VerifyCommChannel_pending:
  "pending_event (g_sm_context (snd (ErrorHandler_VerifyCommChannel w))) = pending_event (g_sm_context w)"
  by (simp add: ErrorHandler_VerifyCommChannel_def Platform_GetTimeMs_def Let_def)

lemma ClearError_pending:
  "pending_event (g_sm_context (ErrorHandler_ClearError w)) = pending_event (g_sm_context w)"
  by (simp add: ErrorHandler_ClearError_def)

lemma AttemptRecovery_pending:
  "pending_event (g_sm_context (snd (ErrorHandler_AttemptRecovery w))) = pending_event (g_sm_context w)"
  unfolding ErrorHandler_AttemptRecovery_def
  by (simp add: Let_def split_beta VerifyCommChannel_pending split: option.splits ErrorCode_t.splits)

lemma run_callback_keeps: "keeps_pending w (run_callback cb w)"
proof -
  have post: "\<And>e v. pending_event (g_sm_context v) = pending_event (g_sm_context w) \<Longrightarrow>
      keeps_pending w (snd (StateMachine_PostEvent e v))"
    by (simp add: keeps_pending_def StateMachine_PostEvent_def)
  show ?thesis
    by (cases cb)
       (simp_all add: callback_defs ErrorHandler_GetCurrentError_def Let_def split_beta
          keeps_pending_refl keeps_pending_same post
          VerifyCommChannel_pending ClearError_pending AttemptRecovery_pending)
qed

lemma invoke_keeps: "keeps_pending w (invoke p w)"
proof (cases p)
  case None
  then show ?thesis by (simp add: invoke_def keeps_pending_refl)
next
  case (Some cb)
  have "keeps_pending (w\<lparr>hook_calls := hook_calls w @ [cb]\<rparr>)
          (run_callback cb (w\<lparr>hook_calls := hook_calls w @ [cb]\<rparr>))"
    by (rule run_callback_keeps)
  then show ?thesis using Some by (simp add: invoke_def keeps_pending_def)
qed

lemma entry_block_keeps: "keeps_pending w (Execute_entry_block cs w)"
  using invoke_keeps [of w "on_entry (g_state_table w cs)"]
  by (simp add: Execute_entry_block_def Let_def split_beta Platform_GetTimeMs_def keeps_pending_def)

lemma state_block_keeps: "keeps_pending w (Execute_state_block cs w)"
  using invoke_keeps [of w "on_state (g_state_table w cs)"]
  by (simp add: Execute_state_block_def Let_def keeps_pending_def)

lemma timeout_block_keeps: "keeps_pending w (Execute_timeout_block cs w)"
  by (simp add: Execute_timeout_block_def Platform_IsTimeout_def Let_def split_beta
        Platform_GetTimeMs_def keeps_pending_def StateMachine_PostEvent_def)

lemma Init_facts:
  "fst (StateMachine_Init w) = True"
  "g_state_table (snd (StateMachine_Init w)) = InitializeStateTable (\<lambda>_. zero_StateConfig)"
  "lockout (snd (StateMachine_Init w)) = False"
  "current_state (g_sm_context (snd (StateMachine_Init w))) = STATE_INIT"
  "pending_event (g_sm_context (snd (StateMachine_Init w))) = EVENT_NONE"
  "state_changed (g_sm_context (snd (StateMachine_Init w))) = False"
  "error_history (handler_of (snd (StateMachine_Init w))) = replicate ERROR_HISTORY_SIZE zero_ErrorInfo"
  "history_index (handler_of (snd (StateMachine_Init w))) = 0"
  "current_error (handler_of (snd (StateMachine_Init w))) = zero_ErrorInfo"
  "g_recovery_handlers (snd (StateMachine_Init w)) = (\<lambda>_. None)"
  by (simp_all add: StateMachine_Init_def ErrorHandler_Init_def Platform_GetTimeMs_def Let_def
        zero_Context_def zero_ErrorHandler_def zero_ErrorInfo_def)

lemmas booted_facts = Init_facts [of power_on, folded booted_def]

lemma replicate_5: "replicate SM_MAX_TRANSITIONS_PER_STATE x = [x, x, x, x, x]"
  by (simp add: eval_nat_numeral)

lemmas table_defs = InitializeStateTable_def configure_state_def zero_StateConfig_def replicate_5 Let_def

lemma canonical_config_wf: "config_wf (InitializeStateTable (\<lambda>_. zero_StateConfig) s)"
  by (cases s) (simp_all add: config_wf_def table_defs)

lemma PerformStateTransition_keeps: "keeps_pending w (PerformStateTransition n w)"
  using invoke_keeps [of w "on_exit (g_state_table w (current_state (g_sm_context w)))"]
  by (simp add: PerformStateTransition_def Let_def keeps_pending_def)

lemma ticks_locked_idle:
  "lockout w \<Longrightarrow> current_state (g_sm_context w) = STATE_CRITICAL_ERROR \<Longrightarrow> ticks n w = w"
  by (induction n) (simp_all add: Execute_locked_idle)

section \<open>Claims\<close>

subsection \<open>The pending slot after a tick\<close>

text \<open>
  Claim C8. Whenever the critical lockout is inactive when \<^verbatim>\<open>StateMachine_Execute\<close> is
  called, the pending-event slot is \<^verbatim>\<open>EVENT_NONE\<close> when it returns: whatever was posted
  before the tick, or during it by a callback or by the timeout check, has been looked up or
  discarded by the event block, whose clearing assignment comes after the call of
  \<^verbatim>\<open>PerformStateTransition\<close> (and so after the on-exit callback).
\<close>

theorem unlocked_tick_clears_pending:
  "\<not> lockout w \<Longrightarrow> pending_event (g_sm_context (snd (StateMachine_Execute w))) = EVENT_NONE"
  by (simp add: StateMachine_Execute_def Let_def event_block_pending)

theorem unlocked_tick_clears_pending_witness:
  "\<not> lockout (snd (StateMachine_PostEvent EVENT_START booted)) \<and>
   pending_event (g_sm_context (snd (StateMachine_PostEvent EVENT_START booted))) = EVENT_START \<and>
   pending_event (g_sm_context (snd (StateMachine_Execute
     (snd (StateMachine_PostEvent EVENT_START booted))))) = EVENT_NONE"
  using unlocked_tick_clears_pending [of "snd (StateMachine_PostEvent EVENT_START booted)"]
  by (simp add: frame_simps booted_facts StateMachine_PostEvent_def)

subsection \<open>Ticks under the lockout\<close>

text \<open>
  Claim C9. With the critical lockout active, a tick in \<^verbatim>\<open>STATE_CRITICAL_ERROR\<close> returns
  that state and leaves the whole world as it was (no context field, no clock read, no
  callback logged), for any number of ticks. A locked tick in any other state is the forced
  transition: it logs only the old state's on-exit callback, sets \<^verbatim>\<open>state_changed\<close>,
  leaves an occupied pending slot alone, and every later tick changes nothing, so the flag is
  never consumed and the on-entry callback of \<^verbatim>\<open>STATE_CRITICAL_ERROR\<close> never runs.
\<close>

theorem locked_tick_changes_nothing:
  assumes "lockout w"
  shows "(current_state (g_sm_context w) = STATE_CRITICAL_ERROR \<longrightarrow>
            StateMachine_Execute w = (STATE_CRITICAL_ERROR, w) \<and> ticks n w = w) \<and>
         (current_state (g_sm_context w) \<noteq> STATE_CRITICAL_ERROR \<longrightarrow>
            (let w1 = snd (StateMachine_Execute w) in
               fst (StateMachine_Execute w) = STATE_CRITICAL_ERROR \<and>
               current_state (g_sm_context w1) = STATE_CRITICAL_ERROR \<and>
               lockout w1 \<and> state_changed (g_sm_context w1) \<and>
               (pending_event (g_sm_context w) \<noteq> EVENT_NONE \<longrightarrow>
                  pending_event (g_sm_context w1) = pending_event (g_sm_context w)) \<and>
               hook_calls w1 = hook_calls w @
                 (case on_exit (g_state_table w (current_state (g_sm_context w))) of
                    None \<Rightarrow> [] | Some cb \<Rightarrow> [cb]) \<and>
               ticks n w1 = w1))"
proof (intro conjI impI)
  assume c: "current_state (g_sm_context w) = STATE_CRITICAL_ERROR"
  show "StateMachine_Execute w = (STATE_CRITICAL_ERROR, w)"
    using assms c by (rule Execute_locked_idle)
  show "ticks n w = w"
    using assms c by (rule ticks_locked_idle)
next
  assume c: "current_state (g_sm_context w) \<noteq> STATE_CRITICAL_ERROR"
  have e: "StateMachine_Execute w =
      (STATE_CRITICAL_ERROR, PerformStateTransition STATE_CRITICAL_ERROR w)"
    using assms c by (simp add: StateMachine_Execute_def PerformStateTransition_simps)
  have l: "lockout (PerformStateTransition STATE_CRITICAL_ERROR w)"
    using assms by (simp add: PerformStateTransition_simps)
  have p: "pending_event (g_sm_context w) \<noteq> EVENT_NONE \<longrightarrow>
      pending_event (g_sm_context (PerformStateTransition STATE_CRITICAL_ERROR w)) =
      pending_event (g_sm_context w)"
    using PerformStateTransition_keeps [of w STATE_CRITICAL_ERROR] by (simp add: keeps_pending_def)
  show "let w1 = snd (StateMachine_Execute w) in
       fst (StateMachine_Execute w) = STATE_CRITICAL_ERROR \<and>
       current_state (g_sm_context w1) = STATE_CRITICAL_ERROR \<and>
       lockout w1 \<and> state_changed (g_sm_context w1) \<and>
       (pending_event (g_sm_context w) \<noteq> EVENT_NONE \<longrightarrow>
          pending_event (g_sm_context w1) = pending_event (g_sm_context w)) \<and>
       hook_calls w1 = hook_calls w @
         (case on_exit (g_state_table w (current_state (g_sm_context w))) of
            None \<Rightarrow> [] | Some cb \<Rightarrow> [cb]) \<and>
       ticks n w1 = w1"
    using l p by (simp add: e Let_def PerformStateTransition_simps ticks_locked_idle)
qed

theorem locked_tick_changes_nothing_witness:
  "lockout (ErrorHandler_HandleCriticalError ERROR_CODE_HARDWARE_FAULT booted) \<and>
   current_state (g_sm_context (ErrorHandler_HandleCriticalError ERROR_CODE_HARDWARE_FAULT booted))
     \<noteq> STATE_CRITICAL_ERROR \<and>
   (let w1 = snd (StateMachine_Execute (ErrorHandler_HandleCriticalError ERROR_CODE_HARDWARE_FAULT booted)) in
      current_state (g_sm_context w1) = STATE_CRITICAL_ERROR \<and> lockout w1 \<and>
      state_changed (g_sm_context w1) \<and>
      pending_event (g_sm_context w1) = EVENT_ERROR_CRITICAL \<and>
      hook_calls w1 = [State_Init_OnExit] \<and>
      ticks 3 w1 = w1)"
proof -
  let ?w = "ErrorHandler_HandleCriticalError ERROR_CODE_HARDWARE_FAULT booted"
  have l: "lockout ?w"
    by (simp add: ErrorHandler_HandleCriticalError_def Let_def split_beta frame_simps
          Platform_GetTimeMs_def)
  have c: "current_state (g_sm_context ?w) = STATE_INIT"
    by (simp add: ErrorHandler_HandleCriticalError_def Let_def split_beta frame_simps
          Platform_GetTimeMs_def booted_facts)
  have p: "pending_event (g_sm_context ?w) = EVENT_ERROR_CRITICAL"
    by (simp add: ErrorHandler_HandleCriticalError_def Let_def split_beta
          Platform_GetTimeMs_def booted_facts StateMachine_PostEvent_def)
  have t: "g_state_table ?w = InitializeStateTable (\<lambda>_. zero_StateConfig)"
    by (simp add: ErrorHandler_HandleCriticalError_def Let_def split_beta frame_simps
          Platform_GetTimeMs_def booted_facts)
  have h: "hook_calls ?w = []"
    by (simp add: ErrorHandler_HandleCriticalError_def Let_def split_beta frame_simps
          Platform_GetTimeMs_def booted_def StateMachine_Init_def ErrorHandler_Init_def power_on_def)
  have x: "on_exit (InitializeStateTable (\<lambda>_. zero_StateConfig) STATE_INIT) = Some State_Init_OnExit"
    by (simp add: table_defs)
  show ?thesis
    using l locked_tick_changes_nothing [OF l, of 3] by (simp add: c p t h x Let_def)
qed

subsection \<open>Event lookup\<close>

lemma Execute_unlocked:
  "\<not> lockout w \<Longrightarrow> StateMachine_Execute w =
     (let w3 = Execute_timeout_block (current_state (g_sm_context w))
                 (Execute_state_block (current_state (g_sm_context w))
                   (Execute_entry_block (current_state (g_sm_context w)) w))
      in (current_state (g_sm_context (Execute_event_block w3)), Execute_event_block w3))"
  by (simp add: StateMachine_Execute_def Let_def)

lemma CheckStateTransition_find:
  "config_wf (g_state_table w (current_state (g_sm_context w))) \<Longrightarrow>
   CheckStateTransition e NonNull w =
     map_option snd (find (\<lambda>r. fst r = e) (rules_of (g_state_table w (current_state (g_sm_context w)))))"
  using loop_find [of 0 "g_state_table w (current_state (g_sm_context w))" e]
  by (simp add: CheckStateTransition_def config_wf_def)

lemma event_block_state:
  "config_wf (g_state_table w (current_state (g_sm_context w))) \<Longrightarrow>
   current_state (g_sm_context (Execute_event_block w)) =
     (if pending_event (g_sm_context w) = EVENT_NONE then current_state (g_sm_context w)
      else case find (\<lambda>r. fst r = pending_event (g_sm_context w))
                  (rules_of (g_state_table w (current_state (g_sm_context w)))) of
             Some r \<Rightarrow> snd r
           | None \<Rightarrow> current_state (g_sm_context w))"
  by (simp add: Execute_event_block_def Let_def CheckStateTransition_find PerformStateTransition_simps
        split: option.splits)

text \<open>
  Claim C3. Take a tick with the lockout inactive, in state \<open>S\<close>, and let \<open>E\<close> be the event
  in the pending slot when the event block starts (the event that was pending before the
  tick, if any: an occupied slot takes no other post). The callbacks and the timeout check
  leave the state and the table alone. If \<open>E\<close> is an event, the tick returns the target of
  the first rule of \<open>S\<close> whose event is \<open>E\<close>, and \<open>S\<close> itself when no rule matches; in
  both cases the slot is \<^verbatim>\<open>EVENT_NONE\<close> when the tick returns. The rule list is read within
  the bounds of the \<^verbatim>\<open>transitions\<close> array (\<open>config_wf\<close>).
\<close>

theorem tick_takes_first_matching_rule:
  assumes "\<not> lockout w"
    and "config_wf (g_state_table w (current_state (g_sm_context w)))"
  shows "(let S = current_state (g_sm_context w);
             w3 = Execute_timeout_block S (Execute_state_block S (Execute_entry_block S w));
             E = pending_event (g_sm_context w3)
         in current_state (g_sm_context w3) = S \<and> g_state_table w3 = g_state_table w \<and>
            (pending_event (g_sm_context w) \<noteq> EVENT_NONE \<longrightarrow> E = pending_event (g_sm_context w)) \<and>
            (E \<noteq> EVENT_NONE \<longrightarrow>
               fst (StateMachine_Execute w) =
                 (case find (\<lambda>r. fst r = E) (rules_of (g_state_table w S)) of
                    Some r \<Rightarrow> snd r | None \<Rightarrow> S)) \<and>
            (E = EVENT_NONE \<longrightarrow> fst (StateMachine_Execute w) = S) \<and>
            current_state (g_sm_context (snd (StateMachine_Execute w))) = fst (StateMachine_Execute w) \<and>
            pending_event (g_sm_context (snd (StateMachine_Execute w))) = EVENT_NONE)"
proof -
  let ?S = "current_state (g_sm_context w)"
  let ?w1 = "Execute_entry_block ?S w"
  let ?w2 = "Execute_state_block ?S ?w1"
  let ?w3 = "Execute_timeout_block ?S ?w2"
  have s: "current_state (g_sm_context ?w3) = ?S"
    by (simp add: timeout_block_simps state_block_simps entry_block_simps)
  have t: "g_state_table ?w3 = g_state_table w"
    by (simp add: timeout_block_simps state_block_simps entry_block_simps)
  have k: "keeps_pending w ?w3"
    by (blast intro: keeps_pending_trans entry_block_keeps state_block_keeps timeout_block_keeps)
  have wf: "config_wf (g_state_table ?w3 (current_state (g_sm_context ?w3)))"
    using assms(2) by (simp add: s t)
  have e: "StateMachine_Execute w =
      (current_state (g_sm_context (Execute_event_block ?w3)), Execute_event_block ?w3)"
    using assms(1) by (simp add: Execute_unlocked Let_def)
  have k': "pending_event (g_sm_context w) \<noteq> EVENT_NONE \<Longrightarrow>
      pending_event (g_sm_context ?w3) = pending_event (g_sm_context w)"
    using k by (simp add: keeps_pending_def split: if_splits)
  have f: "fst (StateMachine_Execute w) =
      (if pending_event (g_sm_context ?w3) = EVENT_NONE then ?S
       else case find (\<lambda>r. fst r = pending_event (g_sm_context ?w3)) (rules_of (g_state_table w ?S)) of
              Some r \<Rightarrow> snd r | None \<Rightarrow> ?S)"
    using event_block_state [OF wf] by (simp only: e fst_conv s t)
  have c: "current_state (g_sm_context (snd (StateMachine_Execute w))) = fst (StateMachine_Execute w)"
    by (simp add: e)
  have p: "pending_event (g_sm_context (snd (StateMachine_Execute w))) = EVENT_NONE"
    by (simp add: e event_block_pending)
  show ?thesis
    unfolding Let_def using s t k' f c p by simp
qed

theorem tick_takes_first_matching_rule_witness:
  "\<not> lockout (snd (StateMachine_PostEvent EVENT_ERROR_NORMAL booted)) \<and>
   config_wf (g_state_table (snd (StateMachine_PostEvent EVENT_ERROR_NORMAL booted)) STATE_INIT) \<and>
   current_state (g_sm_context (snd (StateMachine_PostEvent EVENT_ERROR_NORMAL booted))) = STATE_INIT \<and>
   pending_event (g_sm_context (snd (StateMachine_PostEvent EVENT_ERROR_NORMAL booted))) = EVENT_ERROR_NORMAL \<and>
   fst (StateMachine_Execute (snd (StateMachine_PostEvent EVENT_ERROR_NORMAL booted))) = STATE_RECOVERY \<and>
   pending_event (g_sm_context (snd (StateMachine_Execute
     (snd (StateMachine_PostEvent EVENT_ERROR_NORMAL booted))))) = EVENT_NONE"
proof -
  let ?w = "snd (StateMachine_PostEvent EVENT_ERROR_NORMAL booted)"
  have l: "\<not> lockout ?w" by (simp add: frame_simps booted_facts)
  have c: "current_state (g_sm_context ?w) = STATE_INIT" by (simp add: frame_simps booted_facts)
  have t: "g_state_table ?w = InitializeStateTable (\<lambda>_. zero_StateConfig)"
    by (simp add: frame_simps booted_facts)
  have wf: "config_wf (g_state_table ?w (current_state (g_sm_context ?w)))"
    by (simp add: c t canonical_config_wf)
  have p: "pending_event (g_sm_context ?w) = EVENT_ERROR_NORMAL"
    by (simp add: StateMachine_PostEvent_def booted_facts)
  have r: "rules_of (InitializeStateTable (\<lambda>_. zero_StateConfig) STATE_INIT) =
     [(EVENT_INIT_COMPLETE, STATE_IDLE), (EVENT_ERROR_NORMAL, STATE_RECOVERY),
      (EVENT_ERROR_CRITICAL, STATE_CRITICAL_ERROR), (EVENT_TIMEOUT, STATE_RECOVERY)]"
    by (simp add: rules_of_def table_defs)
  show ?thesis
    using l wf tick_takes_first_matching_rule [OF l wf]
    by (simp add: Let_def c t p r)
qed

subsection \<open>The single pending slot\<close>

lemma post_events_occupied:
  "pending_event (g_sm_context w) \<noteq> EVENT_NONE \<Longrightarrow>
   post_events es w = (replicate (length es) False, w)"
  by (induction es) (simp_all add: StateMachine_PostEvent_def)

text \<open>
  Claim C2. Starting from an empty slot, a sequence of \<^verbatim>\<open>StateMachine_PostEvent\<close> calls with
  valid events other than \<^verbatim>\<open>EVENT_NONE\<close> and no tick in between returns \<^verbatim>\<open>true\<close> for the
  first call and \<^verbatim>\<open>false\<close> for every other; the world afterwards is the initial one with
  the first event in the slot (nothing is queued or merged). After a tick with the lockout
  inactive a post succeeds again.
\<close>

theorem only_first_post_succeeds:
  assumes "\<forall>e \<in> set (e0 # es). e \<noteq> EVENT_NONE \<and> event_num e < EVENT_MAX"
    and "pending_event (g_sm_context w) = EVENT_NONE"
  shows "post_events (e0 # es) w =
           (True # replicate (length es) False, upd_ctx (\<lambda>c. c\<lparr>pending_event := e0\<rparr>) w) \<and>
         (\<not> lockout w \<longrightarrow>
            fst (StateMachine_PostEvent e0
                  (snd (StateMachine_Execute (snd (post_events (e0 # es) w))))) = True)"
proof -
  let ?w1 = "upd_ctx (\<lambda>c. c\<lparr>pending_event := e0\<rparr>) w"
  have first: "StateMachine_PostEvent e0 w = (True, ?w1)"
    using assms by (simp add: StateMachine_PostEvent_def)
  have occ: "pending_event (g_sm_context ?w1) \<noteq> EVENT_NONE"
    using assms(1) by simp
  have all: "post_events (e0 # es) w = (True # replicate (length es) False, ?w1)"
    by (simp add: first post_events_occupied [OF occ])
  have again: "\<not> lockout w \<Longrightarrow> fst (StateMachine_PostEvent e0 (snd (StateMachine_Execute ?w1))) = True"
  proof -
    assume "\<not> lockout w"
    then have "\<not> lockout ?w1" by simp
    then have "pending_event (g_sm_context (snd (StateMachine_Execute ?w1))) = EVENT_NONE"
      by (rule Execute_unlocked_pending)
    then show ?thesis using assms(1) by (simp add: StateMachine_PostEvent_def)
  qed
  show ?thesis
    unfolding all using again by simp
qed

theorem only_first_post_succeeds_witness:
  "EVENT_START \<noteq> EVENT_NONE \<and> event_num EVENT_START < EVENT_MAX \<and>
   EVENT_STOP \<noteq> EVENT_NONE \<and> event_num EVENT_STOP < EVENT_MAX \<and>
   pending_event (g_sm_context booted) = EVENT_NONE \<and>
   post_events [EVENT_START, EVENT_STOP, EVENT_START] booted =
     ([True, False, False], upd_ctx (\<lambda>c. c\<lparr>pending_event := EVENT_START\<rparr>) booted)"
  using only_first_post_succeeds [of EVENT_START "[EVENT_STOP, EVENT_START]" booted]
  by (simp add: booted_facts)


subsection \<open>Reading the error history\<close>

text \<open>
  Claim C10. For every index below \<^verbatim>\<open>ERROR_HISTORY_SIZE\<close> and a non-null output pointer,
  \<^verbatim>\<open>ErrorHandler_GetHistoryError\<close> succeeds in every world; right after
  \<^verbatim>\<open>StateMachine_Init\<close>, with no error reported, it returns the all-zero record.
  \<^verbatim>\<open>ErrorHandler_GetHistoryCount\<close> is always 16. A record can be written that equals the
  all-zero record of an empty slot (a report of level and code \<^verbatim>\<open>NONE\<close> in
  \<^verbatim>\<open>STATE_INIT\<close> at clock reading 0), so a read cannot tell the two apart.
\<close>

theorem history_read_always_succeeds:
  assumes "unat index < ERROR_HISTORY_SIZE"
  shows "(\<exists>r. ErrorHandler_GetHistoryError index NonNull w = Some r) \<and>
         ErrorHandler_GetHistoryCount w = 16 \<and>
         ErrorHandler_GetHistoryError index NonNull (snd (StateMachine_Init w)) = Some zero_ErrorInfo \<and>
         ErrorHandler_GetHistoryCount (snd (StateMachine_Init w)) = 16 \<and>
         (if clock w (Suc (clock_reads w)) = 0 then
            ErrorHandler_GetHistoryError 0 NonNull
              (snd (ErrorHandler_Report ERROR_LEVEL_NONE ERROR_CODE_NONE (snd (StateMachine_Init w))))
              = Some zero_ErrorInfo
          else True)"
proof -
  have lt: "(unat (0::u8) + ERROR_HISTORY_SIZE - unat index - 1) mod ERROR_HISTORY_SIZE < ERROR_HISTORY_SIZE"
    by simp
  have a: "\<exists>r. ErrorHandler_GetHistoryError index NonNull w = Some r"
    using assms by (simp add: ErrorHandler_GetHistoryError_def Let_def)
  have b: "ErrorHandler_GetHistoryError index NonNull (snd (StateMachine_Init w)) = Some zero_ErrorInfo"
    using assms lt by (simp add: ErrorHandler_GetHistoryError_def Let_def Init_facts)
  have c: "clock w (Suc (clock_reads w)) = 0 \<Longrightarrow>
      ErrorHandler_GetHistoryError 0 NonNull
        (snd (ErrorHandler_Report ERROR_LEVEL_NONE ERROR_CODE_NONE (snd (StateMachine_Init w))))
        = Some zero_ErrorInfo"
    by (simp add: ErrorHandler_GetHistoryError_def ErrorHandler_Report_def AddErrorToHistory_def
          StateMachine_GetCurrentState_def Platform_GetTimeMs_def Let_def split_beta
          StateMachine_Init_def ErrorHandler_Init_def zero_Context_def zero_ErrorHandler_def
          zero_ErrorInfo_def)
  show ?thesis
    using a b c by (simp add: ErrorHandler_GetHistoryCount_def)
qed

theorem history_read_always_succeeds_witness:
  "unat (15 :: u8) < ERROR_HISTORY_SIZE \<and>
   ErrorHandler_GetHistoryError 15 NonNull booted = Some zero_ErrorInfo \<and>
   ErrorHandler_GetHistoryCount booted = 16 \<and>
   ErrorHandler_GetHistoryError 0 NonNull
     (snd (ErrorHandler_Report ERROR_LEVEL_NONE ERROR_CODE_NONE
            (snd (StateMachine_Init (power_on\<lparr>clock := (\<lambda>_. 0)\<rparr>))))) = Some zero_ErrorInfo"
  using history_read_always_succeeds [of 15 power_on]
    history_read_always_succeeds [of 15 "power_on\<lparr>clock := (\<lambda>_. 0)\<rparr>"]
  by (simp add: booted_def)

subsection \<open>The table after initialisation\<close>

lemma canonical_rules:
  "rules_of (InitializeStateTable (\<lambda>_. zero_StateConfig) STATE_INIT) =
     [(EVENT_INIT_COMPLETE, STATE_IDLE), (EVENT_ERROR_NORMAL, STATE_RECOVERY),
      (EVENT_ERROR_CRITICAL, STATE_CRITICAL_ERROR), (EVENT_TIMEOUT, STATE_RECOVERY)]"
  "rules_of (InitializeStateTable (\<lambda>_. zero_StateConfig) STATE_IDLE) =
     [(EVENT_START, STATE_ACTIVE), (EVENT_ERROR_NORMAL, STATE_RECOVERY),
      (EVENT_ERROR_CRITICAL, STATE_CRITICAL_ERROR)]"
  "rules_of (InitializeStateTable (\<lambda>_. zero_StateConfig) STATE_ACTIVE) =
     [(EVENT_DATA_READY, STATE_PROCESSING), (EVENT_STOP, STATE_IDLE),
      (EVENT_ERROR_NORMAL, STATE_RECOVERY), (EVENT_ERROR_CRITICAL, STATE_CRITICAL_ERROR)]"
  "rules_of (InitializeStateTable (\<lambda>_. zero_StateConfig) STATE_PROCESSING) =
     [(EVENT_PROCESSING_DONE, STATE_COMMUNICATING), (EVENT_TIMEOUT, STATE_RECOVERY),
      (EVENT_ERROR_NORMAL, STATE_RECOVERY), (EVENT_ERROR_CRITICAL, STATE_CRITICAL_ERROR)]"
  "rules_of (InitializeStateTable (\<lambda>_. zero_StateConfig) STATE_COMMUNICATING) =
     [(EVENT_COMM_COMPLETE, STATE_MONITORING), (EVENT_TIMEOUT, STATE_RECOVERY),
      (EVENT_ERROR_NORMAL, STATE_RECOVERY), (EVENT_ERROR_CRITICAL, STATE_CRITICAL_ERROR)]"
  "rules_of (InitializeStateTable (\<lambda>_. zero_StateConfig) STATE_MONITORING) =
     [(EVENT_STOP, STATE_IDLE), (EVENT_DATA_READY, STATE_PROCESSING),
      (EVENT_ERROR_NORMAL, STATE_RECOVERY), (EVENT_ERROR_CRITICAL, STATE_CRITICAL_ERROR)]"
  "rules_of (InitializeStateTable (\<lambda>_. zero_StateConfig) STATE_CALIBRATING) =
     [(EVENT_PROCESSING_DONE, STATE_DIAGNOSTICS), (EVENT_TIMEOUT, STATE_RECOVERY),
      (EVENT_ERROR_NORMAL, STATE_RECOVERY), (EVENT_ERROR_CRITICAL, STATE_CRITICAL_ERROR)]"
  "rules_of (InitializeStateTable (\<lambda>_. zero_StateConfig) STATE_DIAGNOSTICS) =
     [(EVENT_PROCESSING_DONE, STATE_ACTIVE), (EVENT_TIMEOUT, STATE_RECOVERY),
      (EVENT_ERROR_NORMAL, STATE_RECOVERY), (EVENT_ERROR_CRITICAL, STATE_CRITICAL_ERROR)]"
  "rules_of (InitializeStateTable (\<lambda>_. zero_StateConfig) STATE_RECOVERY) =
     [(EVENT_RECOVERY_SUCCESS, STATE_IDLE), (EVENT_RECOVERY_FAILED, STATE_CRITICAL_ERROR),
      (EVENT_TIMEOUT, STATE_CRITICAL_ERROR), (EVENT_ERROR_CRITICAL, STATE_CRITICAL_ERROR)]"
  "rules_of (InitializeStateTable (\<lambda>_. zero_StateConfig) STATE_CRITICAL_ERROR) = []"
  by (simp_all add: rules_of_def table_defs)

lemma canonical_timeouts:
  "timeout_ms (InitializeStateTable (\<lambda>_. zero_StateConfig) STATE_INIT) = 5000"
  "timeout_ms (InitializeStateTable (\<lambda>_. zero_StateConfig) STATE_IDLE) = 0"
  "timeout_ms (InitializeStateTable (\<lambda>_. zero_StateConfig) STATE_ACTIVE) = 0"
  "timeout_ms (InitializeStateTable (\<lambda>_. zero_StateConfig) STATE_PROCESSING) = 3000"
  "timeout_ms (InitializeStateTable (\<lambda>_. zero_StateConfig) STATE_COMMUNICATING) = 100"
  "timeout_ms (InitializeStateTable (\<lambda>_. zero_StateConfig) STATE_MONITORING) = 0"
  "timeout_ms (InitializeStateTable (\<lambda>_. zero_StateConfig) STATE_CALIBRATING) = 5000"
  "timeout_ms (InitializeStateTable (\<lambda>_. zero_StateConfig) STATE_DIAGNOSTICS) = 2000"
  "timeout_ms (InitializeStateTable (\<lambda>_. zero_StateConfig) STATE_RECOVERY) = 2000"
  "timeout_ms (InitializeStateTable (\<lambda>_. zero_StateConfig) STATE_CRITICAL_ERROR) = 0"
  by (simp_all add: table_defs)

text \<open>
  Claim C6. \<^verbatim>\<open>StateMachine_Init\<close> succeeds, and the table it leaves has, for each of the
  ten states, exactly the rules of the canonical table in their order
  (\<^verbatim>\<open>STATE_CRITICAL_ERROR\<close> has none), and the default timeouts: 5000, 3000, 100, 5000, 2000
  and 2000 ms for Init, Processing, Communicating, Calibrating, Diagnostics and Recovery, and 0
  for Idle, Active, Monitoring and CriticalError.
\<close>

theorem init_builds_canonical_table:
  "fst (StateMachine_Init w) \<and>
   (let t = g_state_table (snd (StateMachine_Init w)) in
      rules_of (t STATE_INIT) =
        [(EVENT_INIT_COMPLETE, STATE_IDLE), (EVENT_ERROR_NORMAL, STATE_RECOVERY),
         (EVENT_ERROR_CRITICAL, STATE_CRITICAL_ERROR), (EVENT_TIMEOUT, STATE_RECOVERY)] \<and>
      rules_of (t STATE_IDLE) =
        [(EVENT_START, STATE_ACTIVE), (EVENT_ERROR_NORMAL, STATE_RECOVERY),
         (EVENT_ERROR_CRITICAL, STATE_CRITICAL_ERROR)] \<and>
      rules_of (t STATE_ACTIVE) =
        [(EVENT_DATA_READY, STATE_PROCESSING), (EVENT_STOP, STATE_IDLE),
         (EVENT_ERROR_NORMAL, STATE_RECOVERY), (EVENT_ERROR_CRITICAL, STATE_CRITICAL_ERROR)] \<and>
      rules_of (t STATE_PROCESSING) =
        [(EVENT_PROCESSING_DONE, STATE_COMMUNICATING), (EVENT_TIMEOUT, STATE_RECOVERY),
         (EVENT_ERROR_NORMAL, STATE_RECOVERY), (EVENT_ERROR_CRITICAL, STATE_CRITICAL_ERROR)] \<and>
      rules_of (t STATE_COMMUNICATING) =
        [(EVENT_COMM_COMPLETE, STATE_MONITORING), (EVENT_TIMEOUT, STATE_RECOVERY),
         (EVENT_ERROR_NORMAL, STATE_RECOVERY), (EVENT_ERROR_CRITICAL, STATE_CRITICAL_ERROR)] \<and>
      rules_of (t STATE_MONITORING) =
        [(EVENT_STOP, STATE_IDLE), (EVENT_DATA_READY, STATE_PROCESSING),
         (EVENT_ERROR_NORMAL, STATE_RECOVERY), (EVENT_ERROR_CRITICAL, STATE_CRITICAL_ERROR)] \<and>
      rules_of (t STATE_CALIBRATING) =
        [(EVENT_PROCESSING_DONE, STATE_DIAGNOSTICS), (EVENT_TIMEOUT, STATE_RECOVERY),
         (EVENT_ERROR_NORMAL, STATE_RECOVERY), (EVENT_ERROR_CRITICAL, STATE_CRITICAL_ERROR)] \<and>
      rules_of (t STATE_DIAGNOSTICS) =
        [(EVENT_PROCESSING_DONE, STATE_ACTIVE), (EVENT_TIMEOUT, STATE_RECOVERY),
         (EVENT_ERROR_NORMAL, STATE_RECOVERY), (EVENT_ERROR_CRITICAL, STATE_CRITICAL_ERROR)] \<and>
      rules_of (t STATE_RECOVERY) =
        [(EVENT_RECOVERY_SUCCESS, STATE_IDLE), (EVENT_RECOVERY_FAILED, STATE_CRITICAL_ERROR),
         (EVENT_TIMEOUT, STATE_CRITICAL_ERROR), (EVENT_ERROR_CRITICAL, STATE_CRITICAL_ERROR)] \<and>
      rules_of (t STATE_CRITICAL_ERROR) = [] \<and>
      timeout_ms (t STATE_INIT) = 5000 \<and> timeout_ms (t STATE_PROCESSING) = 3000 \<and>
      timeout_ms (t STATE_COMMUNICATING) = 100 \<and> timeout_ms (t STATE_CALIBRATING) = 5000 \<and>
      timeout_ms (t STATE_DIAGNOSTICS) = 2000 \<and> timeout_ms (t STATE_RECOVERY) = 2000 \<and>
      timeout_ms (t STATE_IDLE) = 0 \<and> timeout_ms (t STATE_ACTIVE) = 0 \<and>
      timeout_ms (t STATE_MONITORING) = 0 \<and> timeout_ms (t STATE_CRITICAL_ERROR) = 0)"
  unfolding Let_def Init_facts by (simp only: canonical_rules canonical_timeouts simp_thms)

subsection \<open>The error history as a ring\<close>

lemma run_reports_snoc:
  "run_reports (rs @ [r]) w = snd (ErrorHandler_Report (fst r) (snd r) (run_reports rs w))"
  by (induction rs arbitrary: w) simp_all

lemma HandleNormalError_history:
  "error_history (handler_of (snd (ErrorHandler_HandleNormalError c w))) = error_history (handler_of w)"
  "history_index (handler_of (snd (ErrorHandler_HandleNormalError c w))) = history_index (handler_of w)"
  by (simp_all add: ErrorHandler_HandleNormalError_def Let_def split_beta Platform_GetTimeMs_def
        StateMachine_PostEvent_def)

lemma HandleCriticalError_history:
  "error_history (handler_of (ErrorHandler_HandleCriticalError c w)) = error_history (handler_of w)"
  "history_index (handler_of (ErrorHandler_HandleCriticalError c w)) = history_index (handler_of w)"
  by (simp_all add: ErrorHandler_HandleCriticalError_def Let_def split_beta Platform_GetTimeMs_def
        StateMachine_PostEvent_def)

lemma VerifyCommChannel_handler:
  "handler_of (snd (ErrorHandler_VerifyCommChannel w)) = handler_of w"
  by (simp add: ErrorHandler_VerifyCommChannel_def Let_def split_beta Platform_GetTimeMs_def)

lemma HandleMinorError_history:
  "error_history (handler_of (snd (ErrorHandler_HandleMinorError c w))) = error_history (handler_of w)"
  "history_index (handler_of (snd (ErrorHandler_HandleMinorError c w))) = history_index (handler_of w)"
  by (simp_all add: ErrorHandler_HandleMinorError_def Let_def split_beta Platform_GetTimeMs_def
        HandleNormalError_history VerifyCommChannel_handler)

lemma Report_history:
  "error_history (handler_of (snd (ErrorHandler_Report l c w))) =
     (error_history (handler_of w))[unat (history_index (handler_of w)) := report_record l c w]"
  "history_index (handler_of (snd (ErrorHandler_Report l c w))) =
     of_nat (Suc (unat (history_index (handler_of w))) mod ERROR_HISTORY_SIZE)"
  by (cases l; simp add: ErrorHandler_Report_def Let_def split_beta report_record_def
        StateMachine_GetCurrentState_def HandleNormalError_history HandleCriticalError_history
        HandleMinorError_history AddErrorToHistory_def Platform_GetTimeMs_def)+

lemma mod16_small: "x < 32 \<Longrightarrow> x mod 16 = (if x < 16 then x else x - 16)" for x :: nat
  by (simp add: mod_if)

lemma ring_pos0: "i < ERROR_HISTORY_SIZE \<Longrightarrow>
    (Suc i mod ERROR_HISTORY_SIZE + ERROR_HISTORY_SIZE - 0 - 1) mod ERROR_HISTORY_SIZE = i"
  by (auto simp add: mod16_small)

lemma ring_posSuc: "i < ERROR_HISTORY_SIZE \<Longrightarrow> Suc k < ERROR_HISTORY_SIZE \<Longrightarrow>
    (Suc i mod ERROR_HISTORY_SIZE + ERROR_HISTORY_SIZE - Suc k - 1) mod ERROR_HISTORY_SIZE =
      (i + ERROR_HISTORY_SIZE - k - 1) mod ERROR_HISTORY_SIZE"
  by (auto simp add: mod16_small)

lemma ring_pos_distinct: "i < ERROR_HISTORY_SIZE \<Longrightarrow> Suc k < ERROR_HISTORY_SIZE \<Longrightarrow>
    (i + ERROR_HISTORY_SIZE - k - 1) mod ERROR_HISTORY_SIZE \<noteq> i"
  by (auto simp add: mod16_small)

lemma unat_of_nat_u8: "n < 256 \<Longrightarrow> unat (of_nat n :: u8) = n"
  by (simp add: unat_of_nat)

lemma ring_next: "i < ERROR_HISTORY_SIZE \<Longrightarrow>
    unat (of_nat (Suc i mod ERROR_HISTORY_SIZE) :: u8) = Suc i mod ERROR_HISTORY_SIZE"
  by (rule unat_of_nat_u8) (simp add: mod16_small)

lemma GetHistoryError_read:
  "unat index < ERROR_HISTORY_SIZE \<Longrightarrow>
   ErrorHandler_GetHistoryError index NonNull w =
     Some (error_history (handler_of w) !
             ((unat (history_index (handler_of w)) + ERROR_HISTORY_SIZE - unat index - 1)
                mod ERROR_HISTORY_SIZE))"
  by (simp add: ErrorHandler_GetHistoryError_def Let_def)

lemma Report_index:
  "history_wf w \<Longrightarrow>
   unat (history_index (handler_of (snd (ErrorHandler_Report l c w)))) =
     Suc (unat (history_index (handler_of w))) mod ERROR_HISTORY_SIZE"
  by (simp only: Report_history history_wf_def ring_next)

lemma Report_wf: "history_wf w \<Longrightarrow> history_wf (snd (ErrorHandler_Report l c w))"
proof -
  assume wf: "history_wf w"
  have "Suc (unat (history_index (handler_of w))) mod ERROR_HISTORY_SIZE < ERROR_HISTORY_SIZE"
    by simp
  then show ?thesis
    using wf by (simp only: history_wf_def Report_index [OF wf] Report_history(1) length_list_update simp_thms)
qed

lemma Report_read0:
  assumes wf: "history_wf w"
  shows "ErrorHandler_GetHistoryError 0 NonNull (snd (ErrorHandler_Report l c w)) =
           Some (report_record l c w)"
proof -
  let ?i = "unat (history_index (handler_of w))"
  have i: "?i < ERROR_HISTORY_SIZE" "?i < length (error_history (handler_of w))"
    using wf by (simp_all add: history_wf_def)
  have "ErrorHandler_GetHistoryError 0 NonNull (snd (ErrorHandler_Report l c w)) =
      Some ((error_history (handler_of w))[?i := report_record l c w] !
             ((Suc ?i mod ERROR_HISTORY_SIZE + ERROR_HISTORY_SIZE - 0 - 1) mod ERROR_HISTORY_SIZE))"
    by (subst GetHistoryError_read) (simp_all add: Report_index [OF wf] Report_history(1))
  also have "\<dots> = Some (report_record l c w)"
    by (simp only: ring_pos0 [OF i(1)] nth_list_update_eq [OF i(2)])
  finally show ?thesis .
qed

lemma Report_readSuc:
  assumes wf: "history_wf w" and k: "Suc k < ERROR_HISTORY_SIZE"
  shows "ErrorHandler_GetHistoryError (of_nat (Suc k)) NonNull (snd (ErrorHandler_Report l c w)) =
         ErrorHandler_GetHistoryError (of_nat k) NonNull w"
proof -
  let ?i = "unat (history_index (handler_of w))"
  let ?p = "(?i + ERROR_HISTORY_SIZE - k - 1) mod ERROR_HISTORY_SIZE"
  have i: "?i < ERROR_HISTORY_SIZE"
    using wf by (simp add: history_wf_def)
  have uk: "unat (of_nat k :: u8) = k" and usk: "unat (of_nat (Suc k) :: u8) = Suc k"
    using k by (simp_all only: unat_of_nat_u8)
  have "ErrorHandler_GetHistoryError (of_nat (Suc k)) NonNull (snd (ErrorHandler_Report l c w)) =
      Some ((error_history (handler_of w))[?i := report_record l c w] !
             ((Suc ?i mod ERROR_HISTORY_SIZE + ERROR_HISTORY_SIZE - Suc k - 1) mod ERROR_HISTORY_SIZE))"
    using k by (subst GetHistoryError_read) (simp_all add: Report_index [OF wf] Report_history(1) usk del: of_nat_Suc)
  also have "\<dots> = Some ((error_history (handler_of w))[?i := report_record l c w] ! ?p)"
    by (simp only: ring_posSuc [OF i k])
  also have "\<dots> = Some (error_history (handler_of w) ! ?p)"
    using ring_pos_distinct [OF i k] by (simp only: nth_list_update_neq not_False_eq_True)
  also have "\<dots> = ErrorHandler_GetHistoryError (of_nat k) NonNull w"
    using k by (subst GetHistoryError_read) (simp_all add: uk)
  finally show ?thesis .
qed

lemma run_reports_wf: "history_wf w \<Longrightarrow> history_wf (run_reports rs w)"
  by (induction rs arbitrary: w) (simp_all add: Report_wf)

lemma run_reports_index:
  "history_wf w \<Longrightarrow>
   unat (history_index (handler_of (run_reports rs w))) =
     (unat (history_index (handler_of w)) + length rs) mod ERROR_HISTORY_SIZE"
proof (induction rs rule: rev_induct)
  case Nil
  then show ?case by (simp add: history_wf_def)
next
  case (snoc r rs)
  have wf: "history_wf (run_reports rs w)"
    using snoc.prems by (rule run_reports_wf)
  show ?case
    using snoc.IH [OF snoc.prems]
    by (simp add: run_reports_snoc Report_index [OF wf] mod_Suc_eq)
qed

lemma run_reports_read:
  "history_wf w \<Longrightarrow> k < length rs \<Longrightarrow> k < ERROR_HISTORY_SIZE \<Longrightarrow>
   ErrorHandler_GetHistoryError (of_nat k) NonNull (run_reports rs w) =
     Some (report_record (fst (rs ! (length rs - 1 - k))) (snd (rs ! (length rs - 1 - k)))
             (run_reports (take (length rs - 1 - k) rs) w))"
proof (induction rs arbitrary: k rule: rev_induct)
  case Nil
  then show ?case by simp
next
  case (snoc r rs)
  have wf: "history_wf (run_reports rs w)"
    using snoc.prems(1) by (rule run_reports_wf)
  show ?case
  proof (cases k)
    case 0
    then show ?thesis
      using Report_read0 [OF wf] by (simp add: run_reports_snoc)
  next
    case (Suc k')
    then have k': "k' < length rs" "k' < ERROR_HISTORY_SIZE" "Suc k' < ERROR_HISTORY_SIZE"
      using snoc.prems by simp_all
    have "ErrorHandler_GetHistoryError (of_nat (Suc k')) NonNull (run_reports (rs @ [r]) w) =
          ErrorHandler_GetHistoryError (of_nat k') NonNull (run_reports rs w)"
      unfolding run_reports_snoc by (rule Report_readSuc [OF wf k'(3)])
    also have "\<dots> = Some (report_record (fst (rs ! (length rs - 1 - k'))) (snd (rs ! (length rs - 1 - k')))
                 (run_reports (take (length rs - 1 - k') rs) w))"
      by (rule snoc.IH [OF snoc.prems(1) k'(1,2)])
    finally show ?thesis
      using k'(1) Suc by (simp add: nth_append del: of_nat_Suc)
  qed
qed

text \<open>
  Claim C5. The history is a ring of \<^verbatim>\<open>ERROR_HISTORY_SIZE\<close> slots. After any sequence of
  reports, \<^verbatim>\<open>ErrorHandler_GetHistoryError\<close> with index \<open>k\<close> (below 16 and below the number
  of reports) returns the record of the \<open>(k+1)\<close>-th most recent report, index 0 the most
  recent one; the write index has advanced by the number of reports modulo 16, so the
  seventeenth report overwrites the first.
\<close>

theorem history_is_ring_of_last_reports:
  assumes "history_wf w" and "k < length rs" and "k < ERROR_HISTORY_SIZE"
  shows "ErrorHandler_GetHistoryError (of_nat k) NonNull (run_reports rs w) =
           Some (report_record (fst (rs ! (length rs - 1 - k))) (snd (rs ! (length rs - 1 - k)))
                   (run_reports (take (length rs - 1 - k) rs) w)) \<and>
         unat (history_index (handler_of (run_reports rs w))) =
           (unat (history_index (handler_of w)) + length rs) mod ERROR_HISTORY_SIZE \<and>
         history_wf (run_reports rs w)"
  using run_reports_read [OF assms] run_reports_index [OF assms(1)] run_reports_wf [OF assms(1)]
  by simp

lemma booted_wf: "history_wf booted"
  by (simp add: history_wf_def booted_facts)

lemma HandleNormalError_simps:
  "current_state (g_sm_context (snd (ErrorHandler_HandleNormalError c w))) = current_state (g_sm_context w)"
  "clock (snd (ErrorHandler_HandleNormalError c w)) = clock w"
  "clock_reads (snd (ErrorHandler_HandleNormalError c w)) = Suc (clock_reads w)"
  by (simp_all add: ErrorHandler_HandleNormalError_def Let_def split_beta Platform_GetTimeMs_def
        StateMachine_PostEvent_def)

lemma Report_normal_simps:
  "current_state (g_sm_context (snd (ErrorHandler_Report ERROR_LEVEL_NORMAL c w))) =
     current_state (g_sm_context w)"
  "clock (snd (ErrorHandler_Report ERROR_LEVEL_NORMAL c w)) = clock w"
  "clock_reads (snd (ErrorHandler_Report ERROR_LEVEL_NORMAL c w)) = Suc (Suc (clock_reads w))"
  by (simp_all add: ErrorHandler_Report_def Let_def split_beta HandleNormalError_simps
        AddErrorToHistory_def Platform_GetTimeMs_def)

lemma run_normal_reports:
  "current_state (g_sm_context (run_reports (replicate n (ERROR_LEVEL_NORMAL, c)) w)) =
     current_state (g_sm_context w) \<and>
   clock (run_reports (replicate n (ERROR_LEVEL_NORMAL, c)) w) = clock w \<and>
   clock_reads (run_reports (replicate n (ERROR_LEVEL_NORMAL, c)) w) = clock_reads w + 2 * n"
  by (induction n arbitrary: w) (simp_all add: Report_normal_simps)

lemma booted_clock: "clock booted = (\<lambda>k. of_nat k)" "clock_reads booted = 1"
  by (simp_all add: booted_def power_on_def StateMachine_Init_def ErrorHandler_Init_def
        Platform_GetTimeMs_def Let_def)

theorem history_is_ring_of_last_reports_witness:
  "history_wf booted \<and>
   ErrorHandler_GetHistoryError 0 NonNull
     (run_reports (replicate 16 (ERROR_LEVEL_NORMAL, ERROR_CODE_TIMEOUT) @
                   [(ERROR_LEVEL_CRITICAL, ERROR_CODE_HARDWARE_FAULT)]) booted) =
     Some \<lparr>level = ERROR_LEVEL_CRITICAL, code = ERROR_CODE_HARDWARE_FAULT, timestamp = 33,
           state = STATE_INIT, retry_count = 0, is_recovered = False\<rparr> \<and>
   ErrorHandler_GetHistoryError 15 NonNull
     (run_reports (replicate 16 (ERROR_LEVEL_NORMAL, ERROR_CODE_TIMEOUT) @
                   [(ERROR_LEVEL_CRITICAL, ERROR_CODE_HARDWARE_FAULT)]) booted) =
     Some \<lparr>level = ERROR_LEVEL_NORMAL, code = ERROR_CODE_TIMEOUT, timestamp = 3,
           state = STATE_INIT, retry_count = 0, is_recovered = False\<rparr> \<and>
   unat (history_index (handler_of
     (run_reports (replicate 16 (ERROR_LEVEL_NORMAL, ERROR_CODE_TIMEOUT) @
                   [(ERROR_LEVEL_CRITICAL, ERROR_CODE_HARDWARE_FAULT)]) booted))) = 1"
proof -
  let ?rs = "replicate 16 (ERROR_LEVEL_NORMAL, ERROR_CODE_TIMEOUT) @
               [(ERROR_LEVEL_CRITICAL, ERROR_CODE_HARDWARE_FAULT)]"
  have len: "length ?rs = 17" by simp
  have n16: "?rs ! 16 = (ERROR_LEVEL_CRITICAL, ERROR_CODE_HARDWARE_FAULT)"
    by (simp add: nth_append)
  have n1: "?rs ! 1 = (ERROR_LEVEL_NORMAL, ERROR_CODE_TIMEOUT)"
    by (simp add: nth_append)
  have t16: "take 16 ?rs = replicate 16 (ERROR_LEVEL_NORMAL, ERROR_CODE_TIMEOUT)"
    by simp
  have t1: "take 1 ?rs = replicate 1 (ERROR_LEVEL_NORMAL, ERROR_CODE_TIMEOUT)"
    by (simp add: eval_nat_numeral)
  have r16: "report_record ERROR_LEVEL_CRITICAL ERROR_CODE_HARDWARE_FAULT
      (run_reports (replicate 16 (ERROR_LEVEL_NORMAL, ERROR_CODE_TIMEOUT)) booted) =
      \<lparr>level = ERROR_LEVEL_CRITICAL, code = ERROR_CODE_HARDWARE_FAULT, timestamp = 33,
       state = STATE_INIT, retry_count = 0, is_recovered = False\<rparr>"
    by (simp add: report_record_def Platform_GetTimeMs_def run_normal_reports booted_clock booted_facts)
  have r1: "report_record ERROR_LEVEL_NORMAL ERROR_CODE_TIMEOUT
      (run_reports (replicate 1 (ERROR_LEVEL_NORMAL, ERROR_CODE_TIMEOUT)) booted) =
      \<lparr>level = ERROR_LEVEL_NORMAL, code = ERROR_CODE_TIMEOUT, timestamp = 3,
       state = STATE_INIT, retry_count = 0, is_recovered = False\<rparr>"
    by (simp add: report_record_def Platform_GetTimeMs_def Report_normal_simps booted_clock booted_facts)
  have k0: "0 < length ?rs" and k15: "15 < length ?rs" by simp_all
  have l0: "(0::nat) < ERROR_HISTORY_SIZE" and l15: "(15::nat) < ERROR_HISTORY_SIZE" by simp_all
  have j0: "length ?rs - 1 - 0 = 16" and j15: "length ?rs - 1 - 15 = 1" by simp_all
  have a: "ErrorHandler_GetHistoryError (of_nat 0) NonNull (run_reports ?rs booted) =
      Some \<lparr>level = ERROR_LEVEL_CRITICAL, code = ERROR_CODE_HARDWARE_FAULT, timestamp = 33,
            state = STATE_INIT, retry_count = 0, is_recovered = False\<rparr>"
    using history_is_ring_of_last_reports [OF booted_wf k0 l0]
    unfolding j0 n16 t16 fst_conv snd_conv r16 by (rule conjunct1)
  have b: "ErrorHandler_GetHistoryError (of_nat 15) NonNull (run_reports ?rs booted) =
      Some \<lparr>level = ERROR_LEVEL_NORMAL, code = ERROR_CODE_TIMEOUT, timestamp = 3,
            state = STATE_INIT, retry_count = 0, is_recovered = False\<rparr>"
    using history_is_ring_of_last_reports [OF booted_wf k15 l15]
    unfolding j15 n1 t1 fst_conv snd_conv r1 by (rule conjunct1)
  have c: "unat (history_index (handler_of (run_reports ?rs booted))) = 1"
    using history_is_ring_of_last_reports [OF booted_wf k0 l0]
    unfolding len by (simp add: booted_facts)
  from a have a': "ErrorHandler_GetHistoryError 0 NonNull (run_reports ?rs booted) =
      Some \<lparr>level = ERROR_LEVEL_CRITICAL, code = ERROR_CODE_HARDWARE_FAULT, timestamp = 33,
            state = STATE_INIT, retry_count = 0, is_recovered = False\<rparr>"
    by (simp only: semiring_1_class.of_nat_0)
  from b have b': "ErrorHandler_GetHistoryError 15 NonNull (run_reports ?rs booted) =
      Some \<lparr>level = ERROR_LEVEL_NORMAL, code = ERROR_CODE_TIMEOUT, timestamp = 3,
            state = STATE_INIT, retry_count = 0, is_recovered = False\<rparr>"
    by (simp only: of_nat_numeral)
  show ?thesis
    using a' b' c booted_wf by (intro conjI)
qed

subsection \<open>The critical lockout\<close>

lemma HandleNormalError_lockout:
  "lockout (snd (ErrorHandler_HandleNormalError c w)) = lockout w"
  by (simp add: ErrorHandler_HandleNormalError_def Let_def split_beta Platform_GetTimeMs_def
        StateMachine_PostEvent_def)

lemma HandleCriticalError_lockout: "lockout (ErrorHandler_HandleCriticalError c w)"
  by (simp add: ErrorHandler_HandleCriticalError_def Let_def split_beta Platform_GetTimeMs_def
        StateMachine_PostEvent_def)

lemma HandleCriticalError_pending:
  "pending_event (g_sm_context (ErrorHandler_HandleCriticalError c w)) =
     (if pending_event (g_sm_context w) = EVENT_NONE then EVENT_ERROR_CRITICAL
      else pending_event (g_sm_context w))"
  by (simp add: ErrorHandler_HandleCriticalError_def Let_def split_beta Platform_GetTimeMs_def
        StateMachine_PostEvent_def)

lemma HandleMinorError_lockout:
  "lockout (snd (ErrorHandler_HandleMinorError c w)) = lockout w"
  by (simp add: ErrorHandler_HandleMinorError_def Let_def split_beta Platform_GetTimeMs_def
        HandleNormalError_lockout VerifyCommChannel_handler)

lemma Report_lockout:
  "lockout (snd (ErrorHandler_Report l c w)) = (l = ERROR_LEVEL_CRITICAL \<or> lockout w)"
  by (cases l)
     (simp_all add: ErrorHandler_Report_def Let_def split_beta Platform_GetTimeMs_def
        AddErrorToHistory_def HandleNormalError_lockout HandleMinorError_lockout
        HandleCriticalError_lockout)

lemma ErrorHandler_Init_simps:
  "lockout (snd (ErrorHandler_Init w)) = False"
  "current_state (g_sm_context (snd (ErrorHandler_Init w))) = current_state (g_sm_context w)"
  "pending_event (g_sm_context (snd (ErrorHandler_Init w))) = pending_event (g_sm_context w)"
  "state_changed (g_sm_context (snd (ErrorHandler_Init w))) = state_changed (g_sm_context w)"
  "g_state_table (snd (ErrorHandler_Init w)) = g_state_table w"
  by (simp_all add: ErrorHandler_Init_def Let_def zero_ErrorHandler_def)

lemma HandleCriticalError_simps:
  "current_state (g_sm_context (ErrorHandler_HandleCriticalError c w)) = current_state (g_sm_context w)"
  "state_changed (g_sm_context (ErrorHandler_HandleCriticalError c w)) = state_changed (g_sm_context w)"
  "g_state_table (ErrorHandler_HandleCriticalError c w) = g_state_table w"
  by (simp_all add: ErrorHandler_HandleCriticalError_def Let_def split_beta Platform_GetTimeMs_def
        StateMachine_PostEvent_def)

lemma Reset_locked: "lockout w \<Longrightarrow> StateMachine_Reset w = w"
  by (simp add: StateMachine_Reset_def)

lemma api_step_lockout: "lockout w \<Longrightarrow> lockout (api_step a w)"
  by (cases a)
     (simp_all add: Execute_lockout frame_simps Reset_locked StateMachine_GetStateTime_def
        Platform_GetTimeMs_def split_beta Let_def StateMachine_AddTransition_def
        StateMachine_SetStateTimeout_def StateMachine_SetStateCallbacks_def Report_lockout
        HandleMinorError_lockout HandleNormalError_lockout HandleCriticalError_lockout
        ErrorHandler_RegisterRecoveryHandler_def)

lemma run_calls_lockout: "lockout w \<Longrightarrow> lockout (run_calls cs w)"
  by (induction cs arbitrary: w) (simp_all add: api_step_lockout)

lemma locked_forever:
  "lockout w \<Longrightarrow> lockout (run_calls cs w) \<and>
     fst (StateMachine_Execute (run_calls cs w)) = STATE_CRITICAL_ERROR"
  using Execute_locked [of "run_calls cs w"] by (simp add: run_calls_lockout)

text \<open>
  Claim C1, as amended. \<^verbatim>\<open>ErrorHandler_HandleCriticalError\<close>, called directly or through
  \<^verbatim>\<open>ErrorHandler_Report\<close> with level \<^verbatim>\<open>CRITICAL\<close>, sets the lockout flag in every world,
  also when the slot is occupied and the \<^verbatim>\<open>EVENT_ERROR_CRITICAL\<close> post is dropped (the slot
  keeps its event). After it, whatever sequence of interface calls other than the two
  initialisation functions follows (posts of any events, ticks, resets, further reports,
  recovery attempts, table changes), the flag stays set and the next
  \<^verbatim>\<open>StateMachine_Execute\<close> returns \<^verbatim>\<open>STATE_CRITICAL_ERROR\<close>. \<^verbatim>\<open>StateMachine_Reset\<close>
  changes nothing. The flag is cleared by \<^verbatim>\<open>StateMachine_Init\<close> and also by a direct call
  of \<^verbatim>\<open>ErrorHandler_Init\<close>.
\<close>

theorem critical_lockout_holds_until_reinit:
  "lockout (ErrorHandler_HandleCriticalError c w) \<and>
   fst (ErrorHandler_Report ERROR_LEVEL_CRITICAL c w) \<and>
   lockout (snd (ErrorHandler_Report ERROR_LEVEL_CRITICAL c w)) \<and>
   pending_event (g_sm_context (ErrorHandler_HandleCriticalError c w)) =
     (if pending_event (g_sm_context w) = EVENT_NONE then EVENT_ERROR_CRITICAL
      else pending_event (g_sm_context w)) \<and>
   lockout (run_calls calls (ErrorHandler_HandleCriticalError c w)) \<and>
   fst (StateMachine_Execute (run_calls calls (ErrorHandler_HandleCriticalError c w))) =
     STATE_CRITICAL_ERROR \<and>
   lockout (run_calls calls (snd (ErrorHandler_Report ERROR_LEVEL_CRITICAL c w))) \<and>
   fst (StateMachine_Execute (run_calls calls (snd (ErrorHandler_Report ERROR_LEVEL_CRITICAL c w)))) =
     STATE_CRITICAL_ERROR \<and>
   StateMachine_Reset (ErrorHandler_HandleCriticalError c w) = ErrorHandler_HandleCriticalError c w \<and>
   \<not> lockout (snd (StateMachine_Init (run_calls calls (ErrorHandler_HandleCriticalError c w)))) \<and>
   \<not> lockout (snd (ErrorHandler_Init (run_calls calls (ErrorHandler_HandleCriticalError c w))))"
proof -
  have l1: "lockout (ErrorHandler_HandleCriticalError c w)"
    by (rule HandleCriticalError_lockout)
  have l2: "lockout (snd (ErrorHandler_Report ERROR_LEVEL_CRITICAL c w))"
    by (simp add: Report_lockout)
  have ok: "fst (ErrorHandler_Report ERROR_LEVEL_CRITICAL c w)"
    by (simp add: ErrorHandler_Report_def Let_def split_beta)
  show ?thesis
    using l1 l2 ok locked_forever [OF l1, of calls] locked_forever [OF l2, of calls]
      Reset_locked [OF l1]
    by (simp add: HandleCriticalError_pending Init_facts ErrorHandler_Init_simps)
qed

text \<open>
  Claim C1 as stated fails: the public \<^verbatim>\<open>ErrorHandler_Init\<close> ends the lockout without
  \<^verbatim>\<open>StateMachine_Init\<close>. After initialisation, a post of \<^verbatim>\<open>EVENT_START\<close>, a critical
  error (whose \<^verbatim>\<open>EVENT_ERROR_CRITICAL\<close> is dropped) and \<^verbatim>\<open>ErrorHandler_Init\<close>, the next
  tick returns \<^verbatim>\<open>STATE_INIT\<close>.
\<close>

theorem error_handler_init_ends_lockout_counterexample:
  "lockout (ErrorHandler_HandleCriticalError ERROR_CODE_HARDWARE_FAULT
     (snd (StateMachine_PostEvent EVENT_START booted))) \<and>
   fst (StateMachine_Execute (snd (ErrorHandler_Init
     (ErrorHandler_HandleCriticalError ERROR_CODE_HARDWARE_FAULT
       (snd (StateMachine_PostEvent EVENT_START booted)))))) = STATE_INIT \<and>
   fst (StateMachine_Execute (snd (ErrorHandler_Init
     (ErrorHandler_HandleCriticalError ERROR_CODE_HARDWARE_FAULT
       (snd (StateMachine_PostEvent EVENT_START booted)))))) \<noteq> STATE_CRITICAL_ERROR"
proof -
  let ?p = "snd (StateMachine_PostEvent EVENT_START booted)"
  let ?c = "ErrorHandler_HandleCriticalError ERROR_CODE_HARDWARE_FAULT ?p"
  let ?w = "snd (ErrorHandler_Init ?c)"
  let ?S = "current_state (g_sm_context ?w)"
  let ?w3 = "Execute_timeout_block ?S (Execute_state_block ?S (Execute_entry_block ?S ?w))"
  have lc: "lockout ?c" by (rule HandleCriticalError_lockout)
  have pp: "pending_event (g_sm_context ?p) = EVENT_START"
    by (simp add: StateMachine_PostEvent_def booted_facts)
  have l: "\<not> lockout ?w" by (simp add: ErrorHandler_Init_simps)
  have s: "?S = STATE_INIT"
    by (simp add: ErrorHandler_Init_simps HandleCriticalError_simps frame_simps booted_facts)
  have t: "g_state_table ?w = InitializeStateTable (\<lambda>_. zero_StateConfig)"
    by (simp add: ErrorHandler_Init_simps HandleCriticalError_simps frame_simps booted_facts)
  have p: "pending_event (g_sm_context ?w) = EVENT_START"
    by (simp add: ErrorHandler_Init_simps HandleCriticalError_pending pp)
  have s3: "current_state (g_sm_context ?w3) = STATE_INIT"
    by (simp add: timeout_block_simps state_block_simps entry_block_simps s)
  have t3: "g_state_table ?w3 = InitializeStateTable (\<lambda>_. zero_StateConfig)"
    by (simp add: timeout_block_simps state_block_simps entry_block_simps t)
  have k: "keeps_pending ?w ?w3"
    by (blast intro: keeps_pending_trans entry_block_keeps state_block_keeps timeout_block_keeps)
  have p3: "pending_event (g_sm_context ?w3) = EVENT_START"
    using k p by (simp add: keeps_pending_def)
  have wf3: "config_wf (g_state_table ?w3 (current_state (g_sm_context ?w3)))"
    by (simp only: s3 t3 canonical_config_wf)
  have ev: "current_state (g_sm_context (Execute_event_block ?w3)) = STATE_INIT"
    using event_block_state [OF wf3] by (simp only: s3 t3 p3 canonical_rules) simp
  have e: "fst (StateMachine_Execute ?w) = STATE_INIT"
    using l ev by (simp add: Execute_unlocked Let_def)
  show ?thesis
    using lc e by simp
qed

subsection \<open>Recovery attempts\<close>

lemma VerifyCommChannel_handlers:
  "g_recovery_handlers (snd (ErrorHandler_VerifyCommChannel w)) = g_recovery_handlers w"
  by (simp add: ErrorHandler_VerifyCommChannel_def Let_def split_beta Platform_GetTimeMs_def)

lemma AttemptRecovery_step:
  assumes "level (current_error (handler_of w)) \<noteq> ERROR_LEVEL_NONE"
  shows "retry_count (current_error (handler_of (snd (ErrorHandler_AttemptRecovery w)))) =
           retry_count (current_error (handler_of w)) + 1"
    and "level (current_error (handler_of (snd (ErrorHandler_AttemptRecovery w)))) =
           level (current_error (handler_of w))"
    and "code (current_error (handler_of (snd (ErrorHandler_AttemptRecovery w)))) =
           code (current_error (handler_of w))"
    and "g_recovery_handlers (snd (ErrorHandler_AttemptRecovery w)) = g_recovery_handlers w"
  using assms unfolding ErrorHandler_AttemptRecovery_def
  by (simp_all add: Let_def split_beta VerifyCommChannel_handler VerifyCommChannel_handlers
        split: option.splits ErrorCode_t.splits)

lemma AttemptRecovery_at_max:
  "level (current_error (handler_of w)) \<noteq> ERROR_LEVEL_NONE \<Longrightarrow>
   ERROR_MAX_RECOVERY_ATTEMPTS \<le> retry_count (current_error (handler_of w)) + 1 \<Longrightarrow>
   \<not> fst (ErrorHandler_AttemptRecovery w)"
  by (simp add: ErrorHandler_AttemptRecovery_def Let_def)

lemma unat_inc_u8: "unat x < 255 \<Longrightarrow> unat (x + 1) = Suc (unat x)" for x :: u8
  by (simp add: unat_word_ariths)

lemma max_le_inc: "unat x < 255 \<Longrightarrow> (ERROR_MAX_RECOVERY_ATTEMPTS \<le> x + 1) = (3 \<le> Suc (unat x))" for x :: u8
  by (simp add: word_le_nat_alt unat_inc_u8)

lemma attempts_run:
  "level (current_error (handler_of w)) \<noteq> ERROR_LEVEL_NONE \<Longrightarrow>
   unat (retry_count (current_error (handler_of w))) + n \<le> 255 \<Longrightarrow>
   length (fst (attempts n w)) = n \<and>
   unat (retry_count (current_error (handler_of (snd (attempts n w))))) =
     unat (retry_count (current_error (handler_of w))) + n \<and>
   level (current_error (handler_of (snd (attempts n w)))) = level (current_error (handler_of w)) \<and>
   code (current_error (handler_of (snd (attempts n w)))) = code (current_error (handler_of w)) \<and>
   g_recovery_handlers (snd (attempts n w)) = g_recovery_handlers w \<and>
   (\<forall>i < n. 3 \<le> unat (retry_count (current_error (handler_of w))) + i + 1 \<longrightarrow>
              \<not> fst (attempts n w) ! i)"
proof (induction n arbitrary: w)
  case 0
  then show ?case by simp
next
  case (Suc n)
  let ?w1 = "snd (ErrorHandler_AttemptRecovery w)"
  let ?rc = "retry_count (current_error (handler_of w))"
  have lt: "unat ?rc < 255" using Suc.prems(2) by simp
  have rc1: "unat (retry_count (current_error (handler_of ?w1))) = Suc (unat ?rc)"
    by (simp only: AttemptRecovery_step(1) [OF Suc.prems(1)] unat_inc_u8 [OF lt])
  have lv: "level (current_error (handler_of ?w1)) \<noteq> ERROR_LEVEL_NONE"
    using Suc.prems(1) by (simp add: AttemptRecovery_step(2) [OF Suc.prems(1)])
  have bound: "unat (retry_count (current_error (handler_of ?w1))) + n \<le> 255"
    using Suc.prems(2) rc1 by simp
  note ih = Suc.IH [OF lv bound]
  have first: "3 \<le> Suc (unat ?rc) \<Longrightarrow> \<not> fst (ErrorHandler_AttemptRecovery w)"
    using AttemptRecovery_at_max [OF Suc.prems(1)] max_le_inc [OF lt] by simp
  have nth: "\<forall>i < Suc n. 3 \<le> unat ?rc + i + 1 \<longrightarrow> \<not> fst (attempts (Suc n) w) ! i"
  proof (intro allI impI)
    fix i assume i: "i < Suc n" and m: "3 \<le> unat ?rc + i + 1"
    show "\<not> fst (attempts (Suc n) w) ! i"
    proof (cases i)
      case 0
      then show ?thesis using first m by (simp add: split_beta)
    next
      case (Suc j)
      then have "j < n" "3 \<le> unat (retry_count (current_error (handler_of ?w1))) + j + 1"
        using i m rc1 by simp_all
      then have "\<not> fst (attempts n ?w1) ! j" using ih by blast
      then show ?thesis using Suc by (simp add: split_beta)
    qed
  qed
  show ?case
    using ih rc1 nth AttemptRecovery_step(2,3,4) [OF Suc.prems(1)]
    by (simp add: split_beta)
qed

text \<open>
  Claim C4, as amended. On an active error, \<open>n\<close> successive calls of
  \<^verbatim>\<open>ErrorHandler_AttemptRecovery\<close> that do not take the 8-bit \<^verbatim>\<open>retry_count\<close> past 255
  raise it by exactly \<open>n\<close> (each call by one) and leave the error's level and code; the call
  that brings the count to \<^verbatim>\<open>ERROR_MAX_RECOVERY_ATTEMPTS\<close> and every later one of them
  returns \<^verbatim>\<open>false\<close>. The count is not held at the maximum.
\<close>

theorem recovery_fails_from_max_on:
  assumes "level (current_error (handler_of w)) \<noteq> ERROR_LEVEL_NONE"
    and "unat (retry_count (current_error (handler_of w))) + n \<le> 255"
  shows "length (fst (attempts n w)) = n \<and>
         unat (retry_count (current_error (handler_of (snd (attempts n w))))) =
           unat (retry_count (current_error (handler_of w))) + n \<and>
         level (current_error (handler_of (snd (attempts n w)))) = level (current_error (handler_of w)) \<and>
         code (current_error (handler_of (snd (attempts n w)))) = code (current_error (handler_of w)) \<and>
         (\<forall>i < n. unat ERROR_MAX_RECOVERY_ATTEMPTS \<le> unat (retry_count (current_error (handler_of w))) + i + 1 \<longrightarrow>
                    \<not> fst (attempts n w) ! i)"
  using attempts_run [OF assms] by simp

lemma attempts_snoc:
  "attempts (Suc n) w =
     (fst (attempts n w) @ [fst (ErrorHandler_AttemptRecovery (snd (attempts n w)))],
      snd (ErrorHandler_AttemptRecovery (snd (attempts n w))))"
  by (induction n arbitrary: w) (simp_all add: split_beta)

lemma HandleNormalError_error:
  "current_error (handler_of (snd (ErrorHandler_HandleNormalError c w))) =
     \<lparr>level = ERROR_LEVEL_NORMAL, code = c, timestamp = clock w (clock_reads w),
      state = current_state (g_sm_context w), retry_count = 0, is_recovered = False\<rparr>"
  "g_recovery_handlers (snd (ErrorHandler_HandleNormalError c w)) = g_recovery_handlers w"
  by (simp_all add: ErrorHandler_HandleNormalError_def Let_def split_beta Platform_GetTimeMs_def
        StateMachine_PostEvent_def StateMachine_GetCurrentState_def)

lemma wrapped_attempt_succeeds:
  assumes "level (current_error (handler_of w)) \<noteq> ERROR_LEVEL_NONE"
    and "retry_count (current_error (handler_of w)) = 255"
    and "code (current_error (handler_of w)) = ERROR_CODE_TIMEOUT"
    and "g_recovery_handlers w ERROR_CODE_TIMEOUT = None"
  shows "fst (ErrorHandler_AttemptRecovery w)"
    and "retry_count (current_error (handler_of (snd (ErrorHandler_AttemptRecovery w)))) = 0"
  using assms by (simp_all add: ErrorHandler_AttemptRecovery_def Let_def)

text \<open>
  Claim C4 as stated fails: on a \<^verbatim>\<open>HARDWARE_FAULT\<close> error four calls leave
  \<^verbatim>\<open>retry_count\<close> at 4, above the maximum 3; and on a \<^verbatim>\<open>TIMEOUT\<close> error the third
  call fails but the 256th, after the counter has wrapped to 0, succeeds.
\<close>

theorem retry_count_passes_max_counterexample:
  "retry_count (current_error (handler_of (snd (attempts 4
      (snd (ErrorHandler_HandleNormalError ERROR_CODE_HARDWARE_FAULT booted)))))) = 4 \<and>
   ERROR_MAX_RECOVERY_ATTEMPTS <
     retry_count (current_error (handler_of (snd (attempts 4
      (snd (ErrorHandler_HandleNormalError ERROR_CODE_HARDWARE_FAULT booted)))))) \<and>
   fst (attempts 256 (snd (ErrorHandler_HandleNormalError ERROR_CODE_TIMEOUT booted))) ! 2 = False \<and>
   fst (attempts 256 (snd (ErrorHandler_HandleNormalError ERROR_CODE_TIMEOUT booted))) ! 255 = True"
proof -
  let ?f = "snd (ErrorHandler_HandleNormalError ERROR_CODE_HARDWARE_FAULT booted)"
  let ?t = "snd (ErrorHandler_HandleNormalError ERROR_CODE_TIMEOUT booted)"
  have f: "level (current_error (handler_of ?f)) \<noteq> ERROR_LEVEL_NONE"
      "unat (retry_count (current_error (handler_of ?f))) + 4 \<le> 255"
    by (simp_all add: HandleNormalError_error)
  have "unat (retry_count (current_error (handler_of (snd (attempts 4 ?f))))) = 4"
    using attempts_run [OF f] by (simp add: HandleNormalError_error)
  then have four: "retry_count (current_error (handler_of (snd (attempts 4 ?f)))) = 4"
    by (simp add: word_unat_eq_iff)
  have t: "level (current_error (handler_of ?t)) \<noteq> ERROR_LEVEL_NONE"
      "unat (retry_count (current_error (handler_of ?t))) + 255 \<le> 255"
    by (simp_all add: HandleNormalError_error)
  note r = attempts_run [OF t]
  let ?u = "snd (attempts 255 ?t)"
  have u: "level (current_error (handler_of ?u)) \<noteq> ERROR_LEVEL_NONE"
      "unat (retry_count (current_error (handler_of ?u))) = 255"
      "code (current_error (handler_of ?u)) = ERROR_CODE_TIMEOUT"
      "g_recovery_handlers ?u ERROR_CODE_TIMEOUT = None"
    using r by (simp_all add: HandleNormalError_error booted_facts)
  have u255: "retry_count (current_error (handler_of ?u)) = 255"
    using u(2) by (simp add: word_unat_eq_iff)
  have last: "fst (ErrorHandler_AttemptRecovery ?u)"
    by (rule wrapped_attempt_succeeds(1) [OF u(1) u255 u(3,4)])
  have len: "length (fst (attempts 255 ?t)) = 255" using r by simp
  have third: "\<not> fst (attempts 255 ?t) ! 2"
    using r by (simp add: HandleNormalError_error)
  have split: "attempts 256 ?t =
      (fst (attempts 255 ?t) @ [fst (ErrorHandler_AttemptRecovery ?u)],
       snd (ErrorHandler_AttemptRecovery ?u))"
    using attempts_snoc [of 255 ?t] by simp
  have a: "fst (attempts 256 ?t) ! 2 = False"
    using third len by (simp add: split nth_append)
  have b: "fst (attempts 256 ?t) ! 255 = True"
    using last len by (simp add: split nth_append)
  show ?thesis
    using four a b by simp
qed

theorem recovery_fails_from_max_on_witness:
  "level (current_error (handler_of (snd (ErrorHandler_HandleNormalError ERROR_CODE_HARDWARE_FAULT booted))))
     \<noteq> ERROR_LEVEL_NONE \<and>
   unat (retry_count (current_error (handler_of
     (snd (ErrorHandler_HandleNormalError ERROR_CODE_HARDWARE_FAULT booted))))) + 5 \<le> 255 \<and>
   unat (retry_count (current_error (handler_of (snd (attempts 5
     (snd (ErrorHandler_HandleNormalError ERROR_CODE_HARDWARE_FAULT booted))))))) = 5 \<and>
   \<not> fst (attempts 5 (snd (ErrorHandler_HandleNormalError ERROR_CODE_HARDWARE_FAULT booted))) ! 2 \<and>
   \<not> fst (attempts 5 (snd (ErrorHandler_HandleNormalError ERROR_CODE_HARDWARE_FAULT booted))) ! 4"
proof -
  let ?f = "snd (ErrorHandler_HandleNormalError ERROR_CODE_HARDWARE_FAULT booted)"
  have f: "level (current_error (handler_of ?f)) \<noteq> ERROR_LEVEL_NONE"
      "unat (retry_count (current_error (handler_of ?f))) + 5 \<le> 255"
    by (simp_all add: HandleNormalError_error)
  show ?thesis
    using f recovery_fails_from_max_on [OF f] by (simp add: HandleNormalError_error)
qed

subsection \<open>State timeouts\<close>

lemma timeout_block_expired:
  "timeout_ms (g_state_table w cs) \<noteq> 0 \<Longrightarrow>
   fst (Platform_IsTimeout (state_entry_time (g_sm_context w)) (timeout_ms (g_state_table w cs)) w) \<Longrightarrow>
   pending_event (g_sm_context (Execute_timeout_block cs w)) =
     (if pending_event (g_sm_context w) = EVENT_NONE then EVENT_TIMEOUT
      else pending_event (g_sm_context w))"
  by (simp add: Execute_timeout_block_def word_gt_0 split_beta Let_def Platform_IsTimeout_def
        Platform_GetTimeMs_def StateMachine_PostEvent_def)

lemma event_block_changed:
  "config_wf (g_state_table w (current_state (g_sm_context w))) \<Longrightarrow>
   pending_event (g_sm_context w) \<noteq> EVENT_NONE \<Longrightarrow>
   find (\<lambda>r. fst r = pending_event (g_sm_context w))
     (rules_of (g_state_table w (current_state (g_sm_context w)))) = Some r \<Longrightarrow>
   state_changed (g_sm_context (Execute_event_block w)) \<and>
   g_state_table (Execute_event_block w) = g_state_table w"
  by (simp add: Execute_event_block_def Let_def CheckStateTransition_find PerformStateTransition_simps)

lemma entry_block_restamps:
  "state_changed (g_sm_context w) \<Longrightarrow>
   state_entry_time (g_sm_context (Execute_entry_block cs w)) =
     fst (Platform_GetTimeMs (invoke (on_entry (g_state_table w cs)) w))"
  by (simp add: Execute_entry_block_def Let_def split_beta Platform_GetTimeMs_def)

text \<open>
  Claim C7, as amended. Take a tick with the lockout inactive in a state \<open>S\<close> whose timeout
  is not zero, at which \<^verbatim>\<open>Platform_IsTimeout\<close> reports expiry. If the slot is empty after the
  on-state callback, \<^verbatim>\<open>EVENT_TIMEOUT\<close> is posted and looked up in this same tick: when \<open>S\<close>
  has a rule for it, the tick ends in the rule's target with \<^verbatim>\<open>state_changed\<close> set, so the
  next tick stamps \<^verbatim>\<open>state_entry_time\<close> afresh from the clock (the old expiry posts nothing
  more); when \<open>S\<close> has no such rule the state stays. If the slot is occupied, the
  \<^verbatim>\<open>EVENT_TIMEOUT\<close> is dropped and the pending event is looked up instead. The slot is empty
  when the tick returns.
\<close>

theorem expired_timeout_is_posted_and_processed:
  assumes "\<not> lockout w"
    and "config_wf (g_state_table w (current_state (g_sm_context w)))"
    and "timeout_ms (g_state_table w (current_state (g_sm_context w))) \<noteq> 0"
    and "fst (Platform_IsTimeout
           (state_entry_time (g_sm_context
              (Execute_state_block (current_state (g_sm_context w))
                 (Execute_entry_block (current_state (g_sm_context w)) w))))
           (timeout_ms (g_state_table w (current_state (g_sm_context w))))
           (Execute_state_block (current_state (g_sm_context w))
              (Execute_entry_block (current_state (g_sm_context w)) w)))"
  shows "(let S = current_state (g_sm_context w);
              w2 = Execute_state_block S (Execute_entry_block S w);
              w3 = Execute_timeout_block S w2;
              w' = snd (StateMachine_Execute w)
          in (pending_event (g_sm_context w2) = EVENT_NONE \<longrightarrow>
                pending_event (g_sm_context w3) = EVENT_TIMEOUT \<and>
                (case find (\<lambda>r. fst r = EVENT_TIMEOUT) (rules_of (g_state_table w S)) of
                   Some r \<Rightarrow>
                     fst (StateMachine_Execute w) = snd r \<and>
                     current_state (g_sm_context w') = snd r \<and>
                     state_changed (g_sm_context w') \<and>
                     state_entry_time (g_sm_context (Execute_entry_block (snd r) w')) =
                       fst (Platform_GetTimeMs (invoke (on_entry (g_state_table w' (snd r))) w'))
                 | None \<Rightarrow> fst (StateMachine_Execute w) = S)) \<and>
             (pending_event (g_sm_context w2) \<noteq> EVENT_NONE \<longrightarrow>
                pending_event (g_sm_context w3) = pending_event (g_sm_context w2) \<and>
                fst (StateMachine_Execute w) =
                  (case find (\<lambda>r. fst r = pending_event (g_sm_context w2))
                          (rules_of (g_state_table w S)) of
                     Some r \<Rightarrow> snd r | None \<Rightarrow> S)) \<and>
             pending_event (g_sm_context w') = EVENT_NONE)"
proof -
  let ?S = "current_state (g_sm_context w)"
  let ?w2 = "Execute_state_block ?S (Execute_entry_block ?S w)"
  let ?w3 = "Execute_timeout_block ?S ?w2"
  have t2: "g_state_table ?w2 = g_state_table w"
    by (simp add: state_block_simps entry_block_simps)
  have s3: "current_state (g_sm_context ?w3) = ?S"
    by (simp add: timeout_block_simps state_block_simps entry_block_simps)
  have t3: "g_state_table ?w3 = g_state_table w"
    by (simp add: timeout_block_simps state_block_simps entry_block_simps)
  have wf3: "config_wf (g_state_table ?w3 (current_state (g_sm_context ?w3)))"
    using assms(2) by (simp add: s3 t3)
  have p3: "pending_event (g_sm_context ?w3) =
      (if pending_event (g_sm_context ?w2) = EVENT_NONE then EVENT_TIMEOUT
       else pending_event (g_sm_context ?w2))"
    using assms(3,4) by (intro timeout_block_expired) (simp_all add: t2)
  then have occ: "pending_event (g_sm_context ?w3) \<noteq> EVENT_NONE"
    by simp
  have e: "StateMachine_Execute w =
      (current_state (g_sm_context (Execute_event_block ?w3)), Execute_event_block ?w3)"
    using assms(1) by (simp add: Execute_unlocked Let_def)
  have f: "fst (StateMachine_Execute w) =
      (case find (\<lambda>r. fst r = pending_event (g_sm_context ?w3)) (rules_of (g_state_table w ?S)) of
         Some r \<Rightarrow> snd r | None \<Rightarrow> ?S)"
    using event_block_state [OF wf3] occ by (simp only: e fst_conv s3 t3 if_False)
  have c: "current_state (g_sm_context (snd (StateMachine_Execute w))) = fst (StateMachine_Execute w)"
    by (simp add: e)
  have ch: "find (\<lambda>r. fst r = pending_event (g_sm_context ?w3)) (rules_of (g_state_table w ?S)) = Some r
      \<Longrightarrow> state_changed (g_sm_context (snd (StateMachine_Execute w))) \<and>
          g_state_table (snd (StateMachine_Execute w)) = g_state_table w" for r
    using event_block_changed [OF wf3 occ, of r] by (simp add: e s3 t3)
  have pe: "pending_event (g_sm_context (snd (StateMachine_Execute w))) = EVENT_NONE"
    by (simp add: e event_block_pending)
  show ?thesis
    unfolding Let_def
    using p3 f c ch pe
    by (auto simp add: entry_block_restamps split: option.splits)
qed

lemma idle_hooks_fields:
  assumes "on_entry (g_state_table w STATE_IDLE) = Some State_Idle_OnEntry"
    and "on_state (g_state_table w STATE_IDLE) = Some State_Idle_OnState"
  shows "pending_event (g_sm_context (Execute_state_block STATE_IDLE (Execute_entry_block STATE_IDLE w)))
           = pending_event (g_sm_context w)"
    and "clock (Execute_state_block STATE_IDLE (Execute_entry_block STATE_IDLE w)) = clock w"
    and "clock_reads (Execute_state_block STATE_IDLE (Execute_entry_block STATE_IDLE w)) =
           (if state_changed (g_sm_context w) then Suc (clock_reads w) else clock_reads w)"
    and "state_entry_time (g_sm_context (Execute_state_block STATE_IDLE (Execute_entry_block STATE_IDLE w))) =
           (if state_changed (g_sm_context w) then clock w (clock_reads w)
            else state_entry_time (g_sm_context w))"
    and "state_changed (g_sm_context (Execute_state_block STATE_IDLE (Execute_entry_block STATE_IDLE w)))
           = False"
  using assms
  by (simp_all add: Execute_entry_block_def Execute_state_block_def invoke_def Platform_GetTimeMs_def
        split_beta Let_def)

lemma timeout_block_fields:
  "timeout_ms (g_state_table w cs) \<noteq> 0 \<Longrightarrow>
   clock_reads (Execute_timeout_block cs w) = Suc (clock_reads w) \<and>
   clock (Execute_timeout_block cs w) = clock w \<and>
   state_entry_time (g_sm_context (Execute_timeout_block cs w)) = state_entry_time (g_sm_context w) \<and>
   state_changed (g_sm_context (Execute_timeout_block cs w)) = state_changed (g_sm_context w)"
  by (simp add: Execute_timeout_block_def word_gt_0 split_beta Let_def Platform_IsTimeout_def
        Platform_GetTimeMs_def StateMachine_PostEvent_def)

lemma event_block_no_rule:
  "config_wf (g_state_table w (current_state (g_sm_context w))) \<Longrightarrow>
   pending_event (g_sm_context w) \<noteq> EVENT_NONE \<Longrightarrow>
   find (\<lambda>r. fst r = pending_event (g_sm_context w))
     (rules_of (g_state_table w (current_state (g_sm_context w)))) = None \<Longrightarrow>
   Execute_event_block w = upd_ctx (\<lambda>c. c\<lparr>pending_event := EVENT_NONE\<rparr>) w"
  by (simp add: Execute_event_block_def Let_def CheckStateTransition_find)

lemma IsTimeout_value:
  "fst (Platform_IsTimeout start tmo w) =
     (if clock w (clock_reads w) \<ge> start then clock w (clock_reads w) - start \<ge> tmo
      else (0xFFFFFFFF - start) + clock w (clock_reads w) \<ge> tmo)"
  by (simp add: Platform_IsTimeout_def Platform_GetTimeMs_def Let_def)

text \<open>
  Across the wrap of the 32-bit clock \<^verbatim>\<open>Platform_IsTimeout\<close> computes the elapsed time one
  short: from \<^verbatim>\<open>0xFFFFFFFF\<close> to 0 one millisecond has passed, and a timeout of 1 ms is not
  reported.
\<close>

lemma IsTimeout_across_wrap:
  "fst (Platform_IsTimeout 0xFFFFFFFF 1 (power_on\<lparr>clock := (\<lambda>_. 0)\<rparr>)) = False"
  by (simp add: IsTimeout_value power_on_def word_le_nat_alt)

text \<open>One tick in \<^verbatim>\<open>STATE_IDLE\<close> with the timeout set to 1 ms and expired.\<close>

lemma idle_tick:
  assumes l: "\<not> lockout w"
    and s: "current_state (g_sm_context w) = STATE_IDLE"
    and p: "pending_event (g_sm_context w) = EVENT_NONE"
    and t: "g_state_table w STATE_IDLE =
              (InitializeStateTable (\<lambda>_. zero_StateConfig) STATE_IDLE)\<lparr>timeout_ms := 1\<rparr>"
    and x: "(if state_changed (g_sm_context w) then clock w (clock_reads w)
             else state_entry_time (g_sm_context w))
            \<le> clock w (if state_changed (g_sm_context w) then Suc (clock_reads w) else clock_reads w)"
    and y: "1 \<le> clock w (if state_changed (g_sm_context w) then Suc (clock_reads w) else clock_reads w)
              - (if state_changed (g_sm_context w) then clock w (clock_reads w)
                 else state_entry_time (g_sm_context w))"
  shows "pending_event (g_sm_context (Execute_timeout_block STATE_IDLE
           (Execute_state_block STATE_IDLE (Execute_entry_block STATE_IDLE w)))) = EVENT_TIMEOUT"
    and "\<not> lockout (snd (StateMachine_Execute w))"
    and "current_state (g_sm_context (snd (StateMachine_Execute w))) = STATE_IDLE"
    and "pending_event (g_sm_context (snd (StateMachine_Execute w))) = EVENT_NONE"
    and "g_state_table (snd (StateMachine_Execute w)) STATE_IDLE = g_state_table w STATE_IDLE"
    and "clock (snd (StateMachine_Execute w)) = clock w"
    and "clock_reads (snd (StateMachine_Execute w)) =
           (if state_changed (g_sm_context w) then Suc (Suc (clock_reads w)) else Suc (clock_reads w))"
    and "state_entry_time (g_sm_context (snd (StateMachine_Execute w))) =
           (if state_changed (g_sm_context w) then clock w (clock_reads w)
            else state_entry_time (g_sm_context w))"
    and "state_changed (g_sm_context (snd (StateMachine_Execute w))) = False"
proof -
  let ?w2 = "Execute_state_block STATE_IDLE (Execute_entry_block STATE_IDLE w)"
  let ?w3 = "Execute_timeout_block STATE_IDLE ?w2"
  have hooks: "on_entry (g_state_table w STATE_IDLE) = Some State_Idle_OnEntry"
      "on_state (g_state_table w STATE_IDLE) = Some State_Idle_OnState"
    by (simp_all add: t table_defs)
  note h = idle_hooks_fields [OF hooks]
  have t2: "g_state_table ?w2 = g_state_table w"
    by (simp add: state_block_simps entry_block_simps)
  have tm: "timeout_ms (g_state_table ?w2 STATE_IDLE) = 1"
    by (simp add: t2 t)
  have tm0: "timeout_ms (g_state_table ?w2 STATE_IDLE) \<noteq> 0"
    by (simp add: tm)
  have ex: "fst (Platform_IsTimeout (state_entry_time (g_sm_context ?w2))
               (timeout_ms (g_state_table ?w2 STATE_IDLE)) ?w2)"
    using x y by (cases "state_changed (g_sm_context w)") (simp_all add: IsTimeout_value h tm)
  have p3: "pending_event (g_sm_context ?w3) = EVENT_TIMEOUT"
    using timeout_block_expired [OF tm0 ex] by (simp add: h p)
  note f3 = timeout_block_fields [OF tm0]
  have s3: "current_state (g_sm_context ?w3) = STATE_IDLE"
    by (simp add: timeout_block_simps state_block_simps entry_block_simps s)
  have t3: "g_state_table ?w3 = g_state_table w"
    by (simp add: timeout_block_simps t2)
  have wf3: "config_wf (g_state_table ?w3 (current_state (g_sm_context ?w3)))"
    by (simp add: s3 t3 t config_wf_def table_defs)
  have none: "find (\<lambda>r. fst r = pending_event (g_sm_context ?w3))
      (rules_of (g_state_table ?w3 (current_state (g_sm_context ?w3)))) = None"
    by (simp add: s3 t3 t p3 rules_of_def table_defs)
  have ev: "Execute_event_block ?w3 = upd_ctx (\<lambda>c. c\<lparr>pending_event := EVENT_NONE\<rparr>) ?w3"
    using p3 by (intro event_block_no_rule [OF wf3 _ none]) simp
  have e: "snd (StateMachine_Execute w) = upd_ctx (\<lambda>c. c\<lparr>pending_event := EVENT_NONE\<rparr>) ?w3"
    using l by (simp add: Execute_unlocked Let_def s ev)
  show "pending_event (g_sm_context ?w3) = EVENT_TIMEOUT" by (rule p3)
  show "\<not> lockout (snd (StateMachine_Execute w))"
    using l by (simp add: Execute_lockout)
  show "current_state (g_sm_context (snd (StateMachine_Execute w))) = STATE_IDLE"
    by (simp add: e s3)
  show "pending_event (g_sm_context (snd (StateMachine_Execute w))) = EVENT_NONE"
    by (simp add: e)
  show "g_state_table (snd (StateMachine_Execute w)) STATE_IDLE = g_state_table w STATE_IDLE"
    by (simp add: e t3)
  show "clock (snd (StateMachine_Execute w)) = clock w"
    by (simp add: e f3 h)
  show "clock_reads (snd (StateMachine_Execute w)) =
           (if state_changed (g_sm_context w) then Suc (Suc (clock_reads w)) else Suc (clock_reads w))"
    by (simp add: e f3 h)
  show "state_entry_time (g_sm_context (snd (StateMachine_Execute w))) =
           (if state_changed (g_sm_context w) then clock w (clock_reads w)
            else state_entry_time (g_sm_context w))"
    by (simp add: e f3 h)
  show "state_changed (g_sm_context (snd (StateMachine_Execute w))) = False"
    by (simp add: e f3 h)
qed

text \<open>The tick that takes \<^verbatim>\<open>STATE_INIT\<close> to \<^verbatim>\<open>STATE_IDLE\<close> on a pending \<^verbatim>\<open>EVENT_INIT_COMPLETE\<close>.\<close>

lemma init_tick_to_idle:
  assumes l: "\<not> lockout w"
    and s: "current_state (g_sm_context w) = STATE_INIT"
    and p: "pending_event (g_sm_context w) = EVENT_INIT_COMPLETE"
    and c: "\<not> state_changed (g_sm_context w)"
    and t: "g_state_table w STATE_INIT = InitializeStateTable (\<lambda>_. zero_StateConfig) STATE_INIT"
  shows "\<not> lockout (snd (StateMachine_Execute w))"
    and "current_state (g_sm_context (snd (StateMachine_Execute w))) = STATE_IDLE"
    and "pending_event (g_sm_context (snd (StateMachine_Execute w))) = EVENT_NONE"
    and "state_changed (g_sm_context (snd (StateMachine_Execute w)))"
    and "g_state_table (snd (StateMachine_Execute w)) = g_state_table w"
    and "clock (snd (StateMachine_Execute w)) = clock w"
    and "clock_reads (snd (StateMachine_Execute w)) = Suc (clock_reads w)"
proof -
  let ?w1 = "Execute_entry_block STATE_INIT w"
  let ?w2 = "Execute_state_block STATE_INIT ?w1"
  let ?w3 = "Execute_timeout_block STATE_INIT ?w2"
  have w1: "?w1 = w" using c by (simp add: Execute_entry_block_def)
  have hooks: "on_state (g_state_table w STATE_INIT) = Some State_Init_OnState"
      "on_exit (g_state_table w STATE_INIT) = Some State_Init_OnExit"
      "timeout_ms (g_state_table w STATE_INIT) = 5000"
    by (simp_all add: t table_defs)
  have f2: "pending_event (g_sm_context ?w2) = EVENT_INIT_COMPLETE"
      "clock ?w2 = clock w" "clock_reads ?w2 = clock_reads w"
      "g_state_table ?w2 = g_state_table w"
      "current_state (g_sm_context ?w2) = STATE_INIT"
    using p s by (simp_all add: w1 Execute_state_block_def invoke_def hooks Init_OnState_body_def
          StateMachine_PostEvent_def Let_def)
  have f3: "pending_event (g_sm_context ?w3) = EVENT_INIT_COMPLETE"
      "clock ?w3 = clock w" "clock_reads ?w3 = Suc (clock_reads w)"
      "g_state_table ?w3 = g_state_table w"
      "current_state (g_sm_context ?w3) = STATE_INIT"
    by (simp_all add: Execute_timeout_block_def f2 hooks Platform_IsTimeout_def Platform_GetTimeMs_def
          StateMachine_PostEvent_def Let_def split_beta)
  have wf3: "config_wf (g_state_table ?w3 (current_state (g_sm_context ?w3)))"
    by (simp only: f3 t canonical_config_wf)
  have chk: "CheckStateTransition EVENT_INIT_COMPLETE NonNull ?w3 = Some STATE_IDLE"
    by (simp only: CheckStateTransition_find [OF wf3] f3 t canonical_rules) simp
  have ev: "Execute_event_block ?w3 =
      upd_ctx (\<lambda>c. c\<lparr>pending_event := EVENT_NONE\<rparr>) (PerformStateTransition STATE_IDLE ?w3)"
    by (simp add: Execute_event_block_def f3 chk Let_def)
  have e: "snd (StateMachine_Execute w) =
      upd_ctx (\<lambda>c. c\<lparr>pending_event := EVENT_NONE\<rparr>) (PerformStateTransition STATE_IDLE ?w3)"
    using l by (simp add: Execute_unlocked Let_def s ev)
  have pt: "clock (PerformStateTransition STATE_IDLE ?w3) = clock w"
      "clock_reads (PerformStateTransition STATE_IDLE ?w3) = Suc (clock_reads w)"
    by (simp_all add: PerformStateTransition_def f3 hooks invoke_def Let_def)
  show "\<not> lockout (snd (StateMachine_Execute w))"
    using l by (simp add: Execute_lockout)
  show "current_state (g_sm_context (snd (StateMachine_Execute w))) = STATE_IDLE"
    by (simp add: e PerformStateTransition_simps)
  show "pending_event (g_sm_context (snd (StateMachine_Execute w))) = EVENT_NONE"
    by (simp add: e)
  show "state_changed (g_sm_context (snd (StateMachine_Execute w)))"
    by (simp add: e PerformStateTransition_simps)
  show "g_state_table (snd (StateMachine_Execute w)) = g_state_table w"
    by (simp add: e PerformStateTransition_simps f3)
  show "clock (snd (StateMachine_Execute w)) = clock w"
    by (simp add: e pt)
  show "clock_reads (snd (StateMachine_Execute w)) = Suc (clock_reads w)"
    by (simp add: e pt)
qed

lemma idle_with_timeout_facts:
  "\<not> lockout idle_with_timeout"
  "current_state (g_sm_context idle_with_timeout) = STATE_IDLE"
  "pending_event (g_sm_context idle_with_timeout) = EVENT_NONE"
  "state_changed (g_sm_context idle_with_timeout)"
  "g_state_table idle_with_timeout STATE_IDLE =
     (InitializeStateTable (\<lambda>_. zero_StateConfig) STATE_IDLE)\<lparr>timeout_ms := 1\<rparr>"
  "clock idle_with_timeout = (\<lambda>k. of_nat k)"
  "clock_reads idle_with_timeout = 2"
proof -
  let ?a = "snd (StateMachine_SetStateTimeout STATE_IDLE 1 booted)"
  let ?b = "snd (StateMachine_PostEvent EVENT_INIT_COMPLETE ?a)"
  have a: "\<not> lockout ?a" "current_state (g_sm_context ?a) = STATE_INIT"
      "pending_event (g_sm_context ?a) = EVENT_NONE" "\<not> state_changed (g_sm_context ?a)"
      "g_state_table ?a = (InitializeStateTable (\<lambda>_. zero_StateConfig))
         (STATE_IDLE := (InitializeStateTable (\<lambda>_. zero_StateConfig) STATE_IDLE)\<lparr>timeout_ms := 1\<rparr>)"
      "clock ?a = (\<lambda>k. of_nat k)" "clock_reads ?a = 1"
    by (simp_all add: StateMachine_SetStateTimeout_def booted_facts booted_clock)
  have b: "\<not> lockout ?b" "current_state (g_sm_context ?b) = STATE_INIT"
      "pending_event (g_sm_context ?b) = EVENT_INIT_COMPLETE" "\<not> state_changed (g_sm_context ?b)"
      "g_state_table ?b = g_state_table ?a"
      "clock ?b = (\<lambda>k. of_nat k)" "clock_reads ?b = 1"
    using a by (simp_all add: StateMachine_PostEvent_def)
  have tb: "g_state_table ?b STATE_INIT = InitializeStateTable (\<lambda>_. zero_StateConfig) STATE_INIT"
    by (simp add: b a)
  note r = init_tick_to_idle [OF b(1,2,3,4) tb, folded idle_with_timeout_def]
  show "\<not> lockout idle_with_timeout" by (rule r)
  show "current_state (g_sm_context idle_with_timeout) = STATE_IDLE" by (rule r)
  show "pending_event (g_sm_context idle_with_timeout) = EVENT_NONE" by (rule r)
  show "state_changed (g_sm_context idle_with_timeout)" by (rule r)
  show "g_state_table idle_with_timeout STATE_IDLE =
     (InitializeStateTable (\<lambda>_. zero_StateConfig) STATE_IDLE)\<lparr>timeout_ms := 1\<rparr>"
    by (simp add: r b a)
  show "clock idle_with_timeout = (\<lambda>k. of_nat k)" by (simp add: r b)
  show "clock_reads idle_with_timeout = 2" by (simp add: r b)
qed

text \<open>
  Claim C7 as stated fails for a state that has a timeout but no rule for \<^verbatim>\<open>EVENT_TIMEOUT\<close>:
  in \<open>idle_with_timeout\<close> the event is posted on each of three successive ticks and the
  state never changes.
\<close>

theorem timeout_reposted_every_tick_counterexample:
  "current_state (g_sm_context idle_with_timeout) = STATE_IDLE \<and>
   timeout_ms (g_state_table idle_with_timeout STATE_IDLE) = 1 \<and>
   pending_event (g_sm_context (Execute_timeout_block STATE_IDLE
     (Execute_state_block STATE_IDLE (Execute_entry_block STATE_IDLE idle_with_timeout)))) = EVENT_TIMEOUT \<and>
   pending_event (g_sm_context (Execute_timeout_block STATE_IDLE
     (Execute_state_block STATE_IDLE (Execute_entry_block STATE_IDLE (ticks 1 idle_with_timeout))))) = EVENT_TIMEOUT \<and>
   pending_event (g_sm_context (Execute_timeout_block STATE_IDLE
     (Execute_state_block STATE_IDLE (Execute_entry_block STATE_IDLE (ticks 2 idle_with_timeout))))) = EVENT_TIMEOUT \<and>
   current_state (g_sm_context (ticks 1 idle_with_timeout)) = STATE_IDLE \<and>
   current_state (g_sm_context (ticks 2 idle_with_timeout)) = STATE_IDLE \<and>
   current_state (g_sm_context (ticks 3 idle_with_timeout)) = STATE_IDLE"
proof -
  let ?w0 = "idle_with_timeout"
  let ?w1 = "snd (StateMachine_Execute ?w0)"
  let ?w2 = "snd (StateMachine_Execute ?w1)"
  let ?w3 = "snd (StateMachine_Execute ?w2)"
  note f0 = idle_with_timeout_facts
  have x0: "(if state_changed (g_sm_context ?w0) then clock ?w0 (clock_reads ?w0)
             else state_entry_time (g_sm_context ?w0))
            \<le> clock ?w0 (if state_changed (g_sm_context ?w0) then Suc (clock_reads ?w0) else clock_reads ?w0)"
    and y0: "1 \<le> clock ?w0 (if state_changed (g_sm_context ?w0) then Suc (clock_reads ?w0) else clock_reads ?w0)
              - (if state_changed (g_sm_context ?w0) then clock ?w0 (clock_reads ?w0)
                 else state_entry_time (g_sm_context ?w0))"
    by (simp_all add: f0)
  note t0 = idle_tick [OF f0(1,2,3,5) x0 y0]
  have f1: "\<not> lockout ?w1" "current_state (g_sm_context ?w1) = STATE_IDLE"
      "pending_event (g_sm_context ?w1) = EVENT_NONE"
      "g_state_table ?w1 STATE_IDLE =
         (InitializeStateTable (\<lambda>_. zero_StateConfig) STATE_IDLE)\<lparr>timeout_ms := 1\<rparr>"
      "clock ?w1 = (\<lambda>k. of_nat k)" "clock_reads ?w1 = 4"
      "state_entry_time (g_sm_context ?w1) = 2" "\<not> state_changed (g_sm_context ?w1)"
    using t0 by (simp_all add: f0)
  have x1: "(if state_changed (g_sm_context ?w1) then clock ?w1 (clock_reads ?w1)
             else state_entry_time (g_sm_context ?w1))
            \<le> clock ?w1 (if state_changed (g_sm_context ?w1) then Suc (clock_reads ?w1) else clock_reads ?w1)"
    and y1: "1 \<le> clock ?w1 (if state_changed (g_sm_context ?w1) then Suc (clock_reads ?w1) else clock_reads ?w1)
              - (if state_changed (g_sm_context ?w1) then clock ?w1 (clock_reads ?w1)
                 else state_entry_time (g_sm_context ?w1))"
    by (simp_all add: f1)
  note t1 = idle_tick [OF f1(1,2,3,4) x1 y1]
  have f2: "\<not> lockout ?w2" "current_state (g_sm_context ?w2) = STATE_IDLE"
      "pending_event (g_sm_context ?w2) = EVENT_NONE"
      "g_state_table ?w2 STATE_IDLE =
         (InitializeStateTable (\<lambda>_. zero_StateConfig) STATE_IDLE)\<lparr>timeout_ms := 1\<rparr>"
      "clock ?w2 = (\<lambda>k. of_nat k)" "clock_reads ?w2 = 5"
      "state_entry_time (g_sm_context ?w2) = 2" "\<not> state_changed (g_sm_context ?w2)"
    using t1 by (simp_all add: f1)
  have x2: "(if state_changed (g_sm_context ?w2) then clock ?w2 (clock_reads ?w2)
             else state_entry_time (g_sm_context ?w2))
            \<le> clock ?w2 (if state_changed (g_sm_context ?w2) then Suc (clock_reads ?w2) else clock_reads ?w2)"
    and y2: "1 \<le> clock ?w2 (if state_changed (g_sm_context ?w2) then Suc (clock_reads ?w2) else clock_reads ?w2)
              - (if state_changed (g_sm_context ?w2) then clock ?w2 (clock_reads ?w2)
                 else state_entry_time (g_sm_context ?w2))"
    by (simp_all add: f2)
  note t2 = idle_tick [OF f2(1,2,3,4) x2 y2]
  have k: "ticks 1 ?w0 = ?w1" "ticks 2 ?w0 = ?w2" "ticks 3 ?w0 = ?w3"
    by (simp_all add: eval_nat_numeral)
  have tm: "timeout_ms (g_state_table idle_with_timeout STATE_IDLE) = 1"
    by (simp add: f0)
  show ?thesis
    unfolding k using f0(2) tm t0(1) t1(1) t2(1) f1(2) f2(2) t2(3) by (intro conjI)
qed

theorem expired_timeout_is_posted_and_processed_witness:
  "\<not> lockout (snd (StateMachine_Init (power_on\<lparr>clock := (\<lambda>k. if k = 0 then 0 else 6000)\<rparr>))) \<and>
   current_state (g_sm_context
     (snd (StateMachine_Init (power_on\<lparr>clock := (\<lambda>k. if k = 0 then 0 else 6000)\<rparr>)))) = STATE_INIT \<and>
   timeout_ms (g_state_table
     (snd (StateMachine_Init (power_on\<lparr>clock := (\<lambda>k. if k = 0 then 0 else 6000)\<rparr>))) STATE_INIT) = 5000 \<and>
   fst (StateMachine_Execute
     (snd (StateMachine_Init (power_on\<lparr>clock := (\<lambda>k. if k = 0 then 0 else 6000)\<rparr>)))) = STATE_RECOVERY \<and>
   state_changed (g_sm_context (snd (StateMachine_Execute
     (snd (StateMachine_Init (power_on\<lparr>clock := (\<lambda>k. if k = 0 then 0 else 6000)\<rparr>)))))) \<and>
   pending_event (g_sm_context (snd (StateMachine_Execute
     (snd (StateMachine_Init (power_on\<lparr>clock := (\<lambda>k. if k = 0 then 0 else 6000)\<rparr>)))))) = EVENT_NONE"
proof -
  let ?w = "snd (StateMachine_Init (power_on\<lparr>clock := (\<lambda>k. if k = 0 then 0 else 6000)\<rparr>))"
  let ?w2 = "Execute_state_block STATE_INIT (Execute_entry_block STATE_INIT ?w)"
  have l: "\<not> lockout ?w" and s: "current_state (g_sm_context ?w) = STATE_INIT"
    and t: "g_state_table ?w = InitializeStateTable (\<lambda>_. zero_StateConfig)"
    by (simp_all add: Init_facts)
  have wf: "config_wf (g_state_table ?w (current_state (g_sm_context ?w)))"
    by (simp only: s t canonical_config_wf)
  have tm: "timeout_ms (g_state_table ?w (current_state (g_sm_context ?w))) = 5000"
    by (simp only: s t canonical_timeouts)
  have tm0: "timeout_ms (g_state_table ?w (current_state (g_sm_context ?w))) \<noteq> 0"
    by (simp add: tm)
  have w: "state_changed (g_sm_context ?w) = False" "state_entry_time (g_sm_context ?w) = 0"
      "clock ?w = (\<lambda>k. if k = 0 then 0 else 6000)" "clock_reads ?w = 1"
      "init_step_count (g_state_data ?w) = 0" "pending_event (g_sm_context ?w) = EVENT_NONE"
    by (simp_all add: StateMachine_Init_def ErrorHandler_Init_def Platform_GetTimeMs_def Let_def
          power_on_def zero_Context_def)
  have hooks: "on_state (g_state_table ?w STATE_INIT) = Some State_Init_OnState"
    by (simp add: t table_defs)
  have w2: "state_entry_time (g_sm_context ?w2) = 0" "clock ?w2 = (\<lambda>k. if k = 0 then 0 else 6000)"
      "clock_reads ?w2 = 1" "pending_event (g_sm_context ?w2) = EVENT_NONE"
    using w by (simp_all add: Execute_entry_block_def Execute_state_block_def invoke_def hooks
          Init_OnState_body_def Let_def word_le_nat_alt)
  have ex: "fst (Platform_IsTimeout
           (state_entry_time (g_sm_context
              (Execute_state_block (current_state (g_sm_context ?w))
                 (Execute_entry_block (current_state (g_sm_context ?w)) ?w))))
           (timeout_ms (g_state_table ?w (current_state (g_sm_context ?w))))
           (Execute_state_block (current_state (g_sm_context ?w))
              (Execute_entry_block (current_state (g_sm_context ?w)) ?w)))"
    unfolding tm unfolding s by (simp add: IsTimeout_value w2)
  have r: "find (\<lambda>r. fst r = EVENT_TIMEOUT) (rules_of (g_state_table ?w STATE_INIT)) =
      Some (EVENT_TIMEOUT, STATE_RECOVERY)"
    by (simp add: t canonical_rules)
  have tm': "timeout_ms (g_state_table ?w STATE_INIT) = 5000"
    using tm by (simp only: s)
  show ?thesis
    using l s tm' expired_timeout_is_posted_and_processed [OF l wf tm0 ex]
    by (simp add: Let_def s w2 r)
qed

end
